theory Spec2Isabelle
  imports Complex_Main
begin

section \<open>JavaScript numbers\<close>

text \<open>
  A JavaScript number is a finite value, \<open>NaN\<close>, \<open>Infinity\<close> or \<open>-Infinity\<close>.
  Finite values are idealised as reals: rounding to the nearest double, overflow and the
  sign of zero are not modelled.  Division by zero, and every operation on \<open>NaN\<close> and
  the infinities, follow IEEE 754 as the language does.
\<close>

datatype jsnum = Num real | NaN | PosInf | NegInf

fun isNaN :: "jsnum \<Rightarrow> bool" where
  "isNaN NaN = True"
| "isNaN _ = False"

fun jneg :: "jsnum \<Rightarrow> jsnum" where
  "jneg (Num a) = Num (- a)"
| "jneg NaN = NaN"
| "jneg PosInf = NegInf"
| "jneg NegInf = PosInf"

text \<open>\<open>a + b\<close>\<close>

fun jadd :: "jsnum \<Rightarrow> jsnum \<Rightarrow> jsnum" where
  "jadd (Num a) (Num b) = Num (a + b)"
| "jadd NaN _ = NaN"
| "jadd _ NaN = NaN"
| "jadd PosInf NegInf = NaN"
| "jadd NegInf PosInf = NaN"
| "jadd PosInf _ = PosInf"
| "jadd _ PosInf = PosInf"
| "jadd NegInf _ = NegInf"
| "jadd _ NegInf = NegInf"

text \<open>\<open>a - b\<close>\<close>

definition jsub :: "jsnum \<Rightarrow> jsnum \<Rightarrow> jsnum" where
  "jsub a b = jadd a (jneg b)"

text \<open>The sign of a number that is not \<open>NaN\<close>: -1, 0 or 1.\<close>

fun jsgn :: "jsnum \<Rightarrow> real" where
  "jsgn (Num a) = sgn a"
| "jsgn PosInf = 1"
| "jsgn NegInf = - 1"
| "jsgn NaN = 0"

definition inf_of_sign :: "real \<Rightarrow> jsnum" where
  "inf_of_sign s = (if s = 0 then NaN else if 0 < s then PosInf else NegInf)"

text \<open>\<open>a * b\<close>: an infinity times zero is \<open>NaN\<close>.\<close>

fun jmul :: "jsnum \<Rightarrow> jsnum \<Rightarrow> jsnum" where
  "jmul (Num a) (Num b) = Num (a * b)"
| "jmul NaN _ = NaN"
| "jmul _ NaN = NaN"
| "jmul a b = inf_of_sign (jsgn a * jsgn b)"

text \<open>
  \<open>a / b\<close>: a finite non-zero value over zero is an infinity, zero over zero and an
  infinity over an infinity are \<open>NaN\<close>.  A zero divisor counts as \<open>+0\<close>.
\<close>

fun jdiv :: "jsnum \<Rightarrow> jsnum \<Rightarrow> jsnum" where
  "jdiv (Num a) (Num b) = (if b = 0 then inf_of_sign (sgn a) else Num (a / b))"
| "jdiv NaN _ = NaN"
| "jdiv _ NaN = NaN"
| "jdiv (Num a) _ = Num 0"
| "jdiv PosInf (Num b) = (if 0 \<le> b then PosInf else NegInf)"
| "jdiv NegInf (Num b) = (if 0 \<le> b then NegInf else PosInf)"
| "jdiv _ _ = NaN"

text \<open>\<open>a < b\<close> and \<open>a > b\<close>: false as soon as one side is \<open>NaN\<close>.\<close>

fun jlt :: "jsnum \<Rightarrow> jsnum \<Rightarrow> bool" where
  "jlt (Num a) (Num b) = (a < b)"
| "jlt NaN _ = False"
| "jlt _ NaN = False"
| "jlt _ NegInf = False"
| "jlt PosInf _ = False"
| "jlt _ _ = True"

definition jgt :: "jsnum \<Rightarrow> jsnum \<Rightarrow> bool" where
  "jgt a b = jlt b a"

text \<open>\<open>a === b\<close> on numbers: \<open>NaN\<close> equals nothing, itself included.\<close>

definition jeq :: "jsnum \<Rightarrow> jsnum \<Rightarrow> bool" where
  "jeq a b = (a = b \<and> a \<noteq> NaN)"

text \<open>\<open>Math.floor\<close>, \<open>Math.max\<close>, \<open>Math.min\<close>, \<open>Math.sin\<close>, \<open>Math.cos\<close>\<close>

fun Math_floor :: "jsnum \<Rightarrow> jsnum" where
  "Math_floor (Num a) = Num (of_int \<lfloor>a\<rfloor>)"
| "Math_floor a = a"

definition Math_max :: "jsnum \<Rightarrow> jsnum \<Rightarrow> jsnum" where
  "Math_max a b = (if isNaN a \<or> isNaN b then NaN else if jlt a b then b else a)"

definition Math_min :: "jsnum \<Rightarrow> jsnum \<Rightarrow> jsnum" where
  "Math_min a b = (if isNaN a \<or> isNaN b then NaN else if jlt b a then b else a)"

fun Math_sin :: "jsnum \<Rightarrow> jsnum" where
  "Math_sin (Num a) = Num (sin a)"
| "Math_sin _ = NaN"

fun Math_cos :: "jsnum \<Rightarrow> jsnum" where
  "Math_cos (Num a) = Num (cos a)"
| "Math_cos _ = NaN"

definition Math_PI :: jsnum where
  "Math_PI = Num pi"


section \<open>Wildfire model: coordinate-box scaling\<close>

text \<open>
  \<^verbatim>\<open>function minMaxScale(val, min, max) {
    return max === min ? 0.0 : (val - min) / (max - min); }\<close>
  inside \<open>predictFire\<close> (wildfire predict.js).
\<close>

definition predictFire_minMaxScale :: "jsnum \<Rightarrow> jsnum \<Rightarrow> jsnum \<Rightarrow> jsnum" where
  "predictFire_minMaxScale val mn mx =
     (if jeq mx mn then Num 0 else jdiv (jsub val mn) (jsub mx mn))"

text \<open>
  \<^verbatim>\<open>function minMaxScale(value, min, max) {
    return max === min ? 0.0 : (value - min) / (max - min); }\<close>
  inside \<open>runTraining\<close> (wildfire train.js).
\<close>

definition minMaxScale :: "jsnum \<Rightarrow> jsnum \<Rightarrow> jsnum \<Rightarrow> jsnum" where
  "minMaxScale val mn mx =
     (if jeq mx mn then Num 0 else jdiv (jsub val mn) (jsub mx mn))"


section \<open>Wildfire training: records, bounds and helpers\<close>

text \<open>
  A row of the wildfire data, as \<open>loadPositiveData\<close> builds it and as the generators
  emit it.  The fields hold finite numbers; year and day of year are whole numbers.
\<close>

record fire_row =
  FIRE_SIZE :: real
  LATITUDE :: real
  LONGITUDE :: real
  FIRE_YEAR :: int
  DISCOVERY_DOY :: int

text \<open>The object \<open>{ latMin, latMax, lonMin, lonMax, yearMin, yearMax }\<close>.\<close>

record bounding_box =
  latMin :: real
  latMax :: real
  lonMin :: real
  lonMax :: real
  yearMin :: real
  yearMax :: real

text \<open>
  What a generator can reach through its arguments: the array of positive rows, the
  bounding object and the shared \<open>Set\<close> of keys.  A generator receives the store and
  returns it, so that every write it makes is visible.
\<close>

record store =
  posData :: "fire_row list"
  bounding :: bounding_box
  fireSet :: "string set"

text \<open>
  How a run stops early: \<open>NoValidRows\<close> is the return of \<open>runTraining\<close> on an empty
  data set, \<open>TypeError\<close> is reading a property of \<open>undefined\<close> (an array read out of
  range), \<open>NonFiniteBounds\<close> marks bounds that are not finite numbers, which rows with
  finite fields never produce.
\<close>

datatype failure = NoValidRows | TypeError | NonFiniteBounds

text \<open>
  \<open>findMinMax\<close>: one scan, starting from \<open>Infinity\<close> and \<open>-Infinity\<close>;
  \<open>scanMinMax\<close> is the body of its loop, the two \<open>if\<close> statements on \<open>val\<close>.
\<close>

definition scanMinMax :: "real \<Rightarrow> jsnum \<times> jsnum \<Rightarrow> jsnum \<times> jsnum" where
  "scanMinMax val acc =
     (case acc of (mn, mx) \<Rightarrow>
        (if jlt (Num val) mn then Num val else mn,
         if jgt (Num val) mx then Num val else mx))"

definition findMinMax :: "real list \<Rightarrow> jsnum \<times> jsnum" where
  "findMinMax arr = fold scanMinMax arr (PosInf, NegInf)"

text \<open>
  \<open>randomInRange(minVal, maxVal)\<close>; \<open>r\<close> is the value \<open>Math.random()\<close> returns in it.
  The random source is a sequence \<open>rnd\<close> of draws and a cursor: the \<open>k\<close>-th call of
  \<open>Math.random()\<close> returns \<open>rnd k\<close>.
\<close>

definition randomInRange :: "real \<Rightarrow> real \<Rightarrow> real \<Rightarrow> real" where
  "randomInRange r minVal maxVal = r * (maxVal - minVal) + minVal"

definition clamp :: "real \<Rightarrow> real \<Rightarrow> real \<Rightarrow> real" where
  "clamp v minVal maxVal = max minVal (min v maxVal)"


subsection \<open>Numbers as text\<close>

definition digit :: "nat \<Rightarrow> char" where
  "digit d = ''0123456789'' ! d"

text \<open>The decimal digits of a natural number, as \<open>Number::toString\<close> writes them.\<close>

fun show_nat :: "nat \<Rightarrow> string" where
  "show_nat n = (if n < 10 then [digit n] else show_nat (n div 10) @ [digit (n mod 10)])"

declare show_nat.simps [simp del]

definition show_int :: "int \<Rightarrow> string" where
  "show_int i = (if i < 0 then CHR ''-'' # show_nat (nat (- i)) else show_nat (nat i))"

text \<open>
  \<open>x.toFixed(4)\<close> for \<open>|x| < 10^21\<close> (beyond, the language switches to exponent
  notation, which is not modelled): the sign, then the integer \<open>n\<close> nearest to
  \<open>|x| * 10^4\<close> (the larger on a tie), written with at least five digits and a point
  before the last four.
\<close>

definition toFixed4 :: "real \<Rightarrow> string" where
  "toFixed4 x =
     (let s = (if x < 0 then ''-'' else '''');
          n = nat \<lfloor>\<bar>x\<bar> * 10000 + 1 / 2\<rfloor>;
          m = show_nat n;
          m = (if length m \<le> 4 then replicate (5 - length m) CHR ''0'' @ m else m);
          k = length m
      in s @ take (k - 4) m @ ''.'' @ drop (k - 4) m)"

text \<open>
  The template \<^verbatim>\<open>`${lat.toFixed(4)},${lon.toFixed(4)},${year},${doy}`\<close> of
  \<open>buildFireSet\<close> and of the three generators.
\<close>

definition eventKey :: "real \<Rightarrow> real \<Rightarrow> int \<Rightarrow> int \<Rightarrow> string" where
  "eventKey lat lon year doy =
     toFixed4 lat @ '','' @ toFixed4 lon @ '','' @ show_int year @ '','' @ show_int doy"

definition rowKey :: "fire_row \<Rightarrow> string" where
  "rowKey row = eventKey (LATITUDE row) (LONGITUDE row) (FIRE_YEAR row) (DISCOVERY_DOY row)"

definition buildFireSet :: "fire_row list \<Rightarrow> string set" where
  "buildFireSet rows = fold (\<lambda>row fs. insert (rowKey row) fs) rows {}"


section \<open>Wildfire training: the negative-sample generators\<close>

text \<open>
  Each generator is a \<open>while\<close> loop over \<open>negatives\<close> and \<open>attempts\<close>.  One turn of the
  loop draws a candidate and its key (\<open>local_candidate\<close>, \<open>global_candidate\<close>,
  \<open>never_candidate\<close>: the statements of the loop body up to the collision check); the
  loop function then tests the key against the set, pushes the row and adds the key.
  The cursor \<open>c\<close> counts the calls of \<open>Math.random()\<close> made so far.
\<close>

subsection \<open>createLocalNegativeSamples\<close>

definition LAT_OFFSET_DEG :: real where
  "LAT_OFFSET_DEG = 0.5"

definition LON_OFFSET_DEG :: real where
  "LON_OFFSET_DEG = 0.5"

definition DOY_OFFSET :: real where
  "DOY_OFFSET = 15"

definition local_candidate :: "(nat \<Rightarrow> real) \<Rightarrow> nat \<Rightarrow> store \<Rightarrow> failure + (fire_row \<times> string)" where
  "local_candidate rnd c st =
     (let idx = \<lfloor>rnd c * real (length (posData st))\<rfloor> in
      if idx < 0 \<or> int (length (posData st)) \<le> idx then Inl TypeError
      else
        let ref = posData st ! nat idx;
            latBase = LATITUDE ref;
            lonBase = LONGITUDE ref;
            yearBase = FIRE_YEAR ref;
            doyBase = DISCOVERY_DOY ref;
            latOffset = (rnd (c + 1) * 2 - 1) * LAT_OFFSET_DEG;
            lonOffset = (rnd (c + 2) * 2 - 1) * LON_OFFSET_DEG;
            doyOffset = \<lfloor>(rnd (c + 3) * 2 - 1) * DOY_OFFSET\<rfloor>;
            newLat = clamp (latBase + latOffset) (latMin (bounding st)) (latMax (bounding st));
            newLon = clamp (lonBase + lonOffset) (lonMin (bounding st)) (lonMax (bounding st));
            newYear = yearBase;
            newDoy = doyBase + doyOffset;
            newDoy = (if newDoy < 1 then 1 else newDoy);
            newDoy = (if newDoy > 366 then 366 else newDoy);
            key = eventKey newLat newLon newYear newDoy
        in Inr (\<lparr>FIRE_SIZE = 0, LATITUDE = newLat, LONGITUDE = newLon,
                  FIRE_YEAR = newYear, DISCOVERY_DOY = newDoy\<rparr>, key))"

function local_loop ::
  "(nat \<Rightarrow> real) \<Rightarrow> int \<Rightarrow> int \<Rightarrow> fire_row list \<Rightarrow> int \<Rightarrow> nat \<Rightarrow> store
     \<Rightarrow> failure + (fire_row list \<times> nat \<times> store)" where
  "local_loop rnd numLocalNeg maxAttempts negatives attempts c st =
     (if int (length negatives) < numLocalNeg \<and> attempts < maxAttempts then
        (case local_candidate rnd c st of
           Inl e \<Rightarrow> Inl e
         | Inr (row, key) \<Rightarrow>
             if key \<notin> fireSet st
             then local_loop rnd numLocalNeg maxAttempts (negatives @ [row]) (attempts + 1)
                    (c + 4) (st\<lparr>fireSet := insert key (fireSet st)\<rparr>)
             else local_loop rnd numLocalNeg maxAttempts negatives (attempts + 1) (c + 4) st)
      else Inr (negatives, c, st))"
  by pat_completeness auto
termination
  by (relation "measure (\<lambda>(rnd, n, maxAttempts, negatives, attempts, c, st).
                  nat (maxAttempts - attempts))") auto

declare local_loop.simps [simp del]

definition createLocalNegativeSamples ::
  "(nat \<Rightarrow> real) \<Rightarrow> nat \<Rightarrow> int \<Rightarrow> store \<Rightarrow> failure + (fire_row list \<times> nat \<times> store)" where
  "createLocalNegativeSamples rnd c numLocalNeg st =
     local_loop rnd numLocalNeg (numLocalNeg * 5) [] 0 c st"


subsection \<open>createGlobalNegativeSamples\<close>

definition global_candidate :: "(nat \<Rightarrow> real) \<Rightarrow> nat \<Rightarrow> store \<Rightarrow> fire_row \<times> string" where
  "global_candidate rnd c st =
     (let lat = randomInRange (rnd c) (latMin (bounding st)) (latMax (bounding st));
          lon = randomInRange (rnd (c + 1)) (lonMin (bounding st)) (lonMax (bounding st));
          year = \<lfloor>randomInRange (rnd (c + 2)) (yearMin (bounding st)) (yearMax (bounding st) + 1)\<rfloor>;
          doy = \<lfloor>randomInRange (rnd (c + 3)) 1 367\<rfloor>;
          key = eventKey lat lon year doy
      in (\<lparr>FIRE_SIZE = 0, LATITUDE = lat, LONGITUDE = lon,
            FIRE_YEAR = year, DISCOVERY_DOY = doy\<rparr>, key))"

function global_loop ::
  "(nat \<Rightarrow> real) \<Rightarrow> int \<Rightarrow> int \<Rightarrow> fire_row list \<Rightarrow> int \<Rightarrow> nat \<Rightarrow> store
     \<Rightarrow> fire_row list \<times> nat \<times> store" where
  "global_loop rnd numGlobalNeg maxAttempts negatives attempts c st =
     (if int (length negatives) < numGlobalNeg \<and> attempts < maxAttempts then
        (case global_candidate rnd c st of
           (row, key) \<Rightarrow>
             if key \<notin> fireSet st
             then global_loop rnd numGlobalNeg maxAttempts (negatives @ [row]) (attempts + 1)
                    (c + 4) (st\<lparr>fireSet := insert key (fireSet st)\<rparr>)
             else global_loop rnd numGlobalNeg maxAttempts negatives (attempts + 1) (c + 4) st)
      else (negatives, c, st))"
  by pat_completeness auto
termination
  by (relation "measure (\<lambda>(rnd, n, maxAttempts, negatives, attempts, c, st).
                  nat (maxAttempts - attempts))") auto

declare global_loop.simps [simp del]

definition createGlobalNegativeSamples ::
  "(nat \<Rightarrow> real) \<Rightarrow> nat \<Rightarrow> int \<Rightarrow> store \<Rightarrow> fire_row list \<times> nat \<times> store" where
  "createGlobalNegativeSamples rnd c numGlobalNeg st =
     global_loop rnd numGlobalNeg (numGlobalNeg * 10) [] 0 c st"


subsection \<open>createNeverFireNegatives\<close>

definition LAT_CELL_SIZE :: real where
  "LAT_CELL_SIZE = 1.0"

definition LON_CELL_SIZE :: real where
  "LON_CELL_SIZE = 1.0"

definition latToCell :: "bounding_box \<Rightarrow> real \<Rightarrow> int" where
  "latToCell b lat = \<lfloor>(lat - latMin b) / LAT_CELL_SIZE\<rfloor>"

definition lonToCell :: "bounding_box \<Rightarrow> real \<Rightarrow> int" where
  "lonToCell b lon = \<lfloor>(lon - lonMin b) / LON_CELL_SIZE\<rfloor>"

text \<open>The template \<^verbatim>\<open>`${cLat},${cLon}`\<close>.\<close>

definition cellId :: "int \<Rightarrow> int \<Rightarrow> string" where
  "cellId cLat cLon = show_int cLat @ '','' @ show_int cLon"

text \<open>
  The \<open>Map\<close> from cell id to the count of fires, filled by the loop over \<open>posData\<close>;
  \<open>countRow\<close> is the body of that loop:
  \<^verbatim>\<open>fireCellMap.set(cellId, (fireCellMap.get(cellId) || 0) + 1)\<close>.
\<close>

definition countRow :: "bounding_box \<Rightarrow> fire_row \<Rightarrow> (string \<rightharpoonup> nat) \<Rightarrow> (string \<rightharpoonup> nat)" where
  "countRow b row m =
     (let cLat = latToCell b (LATITUDE row);
          cLon = lonToCell b (LONGITUDE row);
          cid = cellId cLat cLon
      in m(cid \<mapsto> (case m cid of None \<Rightarrow> 0 | Some k \<Rightarrow> k) + 1))"

definition fireCellMap :: "fire_row list \<Rightarrow> bounding_box \<Rightarrow> (string \<rightharpoonup> nat)" where
  "fireCellMap rows b = fold (countRow b) rows Map.empty"

text \<open>The two nested \<open>for\<close> loops that collect the cells absent from the map.\<close>

definition zeroFireCells :: "fire_row list \<Rightarrow> bounding_box \<Rightarrow> (int \<times> int) list" where
  "zeroFireCells rows b =
     (let latRange = latMax b - latMin b;
          lonRange = lonMax b - lonMin b;
          cellCountLat = \<lceil>latRange / LAT_CELL_SIZE\<rceil>;
          cellCountLon = \<lceil>lonRange / LON_CELL_SIZE\<rceil>;
          m = fireCellMap rows b
      in concat (map (\<lambda>cLat.
           concat (map (\<lambda>cLon. if m (cellId cLat cLon) = None then [(cLat, cLon)] else [])
                       [0..cellCountLon - 1]))
           [0..cellCountLat - 1]))"

definition never_candidate ::
  "(nat \<Rightarrow> real) \<Rightarrow> nat \<Rightarrow> (int \<times> int) list \<Rightarrow> store \<Rightarrow> failure + (fire_row \<times> string)" where
  "never_candidate rnd c cells st =
     (let idx = \<lfloor>rnd c * real (length cells)\<rfloor> in
      if idx < 0 \<or> int (length cells) \<le> idx then Inl TypeError
      else
        let cLat = fst (cells ! nat idx);
            cLon = snd (cells ! nat idx);
            latCellMin = latMin (bounding st) + of_int cLat * LAT_CELL_SIZE;
            latCellMax = latCellMin + LAT_CELL_SIZE;
            lat = randomInRange (rnd (c + 1)) latCellMin latCellMax;
            latClamped = clamp lat (latMin (bounding st)) (latMax (bounding st));
            lonCellMin = lonMin (bounding st) + of_int cLon * LON_CELL_SIZE;
            lonCellMax = lonCellMin + LON_CELL_SIZE;
            lon = randomInRange (rnd (c + 2)) lonCellMin lonCellMax;
            lonClamped = clamp lon (lonMin (bounding st)) (lonMax (bounding st));
            year = \<lfloor>randomInRange (rnd (c + 3)) (yearMin (bounding st)) (yearMax (bounding st) + 1)\<rfloor>;
            doy = \<lfloor>randomInRange (rnd (c + 4)) 1 367\<rfloor>;
            key = eventKey latClamped lonClamped year doy
        in Inr (\<lparr>FIRE_SIZE = 0, LATITUDE = latClamped, LONGITUDE = lonClamped,
                  FIRE_YEAR = year, DISCOVERY_DOY = doy\<rparr>, key))"

function never_loop ::
  "(nat \<Rightarrow> real) \<Rightarrow> (int \<times> int) list \<Rightarrow> int \<Rightarrow> int \<Rightarrow> fire_row list \<Rightarrow> int \<Rightarrow> nat \<Rightarrow> store
     \<Rightarrow> failure + (fire_row list \<times> nat \<times> store)" where
  "never_loop rnd cells numSamplesWanted maxAttempts negatives attempts c st =
     (if int (length negatives) < numSamplesWanted \<and> attempts < maxAttempts then
        (case never_candidate rnd c cells st of
           Inl e \<Rightarrow> Inl e
         | Inr (row, key) \<Rightarrow>
             if key \<notin> fireSet st
             then never_loop rnd cells numSamplesWanted maxAttempts (negatives @ [row])
                    (attempts + 1) (c + 5) (st\<lparr>fireSet := insert key (fireSet st)\<rparr>)
             else never_loop rnd cells numSamplesWanted maxAttempts negatives
                    (attempts + 1) (c + 5) st)
      else Inr (negatives, c, st))"
  by pat_completeness auto
termination
  by (relation "measure (\<lambda>(rnd, cells, n, maxAttempts, negatives, attempts, c, st).
                  nat (maxAttempts - attempts))") auto

declare never_loop.simps [simp del]

text \<open>
  The generator returns its rows; the model also returns the cursor, the store and the
  line the generator writes with \<open>console.log\<close>.
\<close>

definition createNeverFireNegatives ::
  "(nat \<Rightarrow> real) \<Rightarrow> nat \<Rightarrow> store \<Rightarrow> int
     \<Rightarrow> failure + (fire_row list \<times> nat \<times> store \<times> string list)" where
  "createNeverFireNegatives rnd c st numSamplesWanted =
     (let cells = zeroFireCells (posData st) (bounding st) in
      if length cells = 0
      then Inr ([], c, st, [''No truly never-fire cells found. Skipping this step.''])
      else
        (case never_loop rnd cells numSamplesWanted (numSamplesWanted * 10) [] 0 c st of
           Inl e \<Rightarrow> Inl e
         | Inr (negatives, c', st') \<Rightarrow>
             Inr (negatives, c', st',
                  [''Found '' @ show_nat (length cells)
                     @ '' lat/lon cells that never had a fire. Sampling from them...''])))"


section \<open>Wildfire training: runTraining, up to the assembled data set\<close>

text \<open>
  \<open>runTraining\<close> receives the rows \<open>loadPositiveData\<close> resolved to and the random
  source.  The model stops where the tensors are built: the fit of the network and the
  random split into training and validation indices are outside it.
\<close>

record training_data =
  localNegCount :: int
  globalNegCount :: int
  neverFireNegCount :: int
  localNegatives :: "fire_row list"
  globalNegatives :: "fire_row list"
  neverFireNegatives :: "fire_row list"
  negativeData :: "fire_row list"
  fullData :: "fire_row list"
  XAll :: "jsnum list list"
  yClassAll :: "nat list"
  ySizeAll :: "real list"
  final_store :: store
  neverFireLog :: "string list"

text \<open>A pair of finite bounds, read out of what \<open>findMinMax\<close> returns.\<close>

fun finite_bounds :: "jsnum \<times> jsnum \<Rightarrow> (real \<times> real) option" where
  "finite_bounds (Num mn, Num mx) = Some (mn, mx)"
| "finite_bounds _ = None"

text \<open>
  The three counts: \<open>Math.floor(totalNeg * 0.4)\<close>, \<open>Math.floor(totalNeg * 0.3)\<close> and
  the remainder.
\<close>

definition negativeCounts :: "int \<Rightarrow> int \<times> int \<times> int" where
  "negativeCounts totalNeg =
     (let localNegCount = \<lfloor>of_int totalNeg * (0.4 :: real)\<rfloor>;
          globalNegCount = \<lfloor>of_int totalNeg * (0.3 :: real)\<rfloor>;
          neverFireNegCount = totalNeg - localNegCount - globalNegCount
      in (localNegCount, globalNegCount, neverFireNegCount))"

text \<open>The body of the loop over \<open>fullData\<close> that fills \<open>XAll\<close>.\<close>

definition encodeRow :: "bounding_box \<Rightarrow> fire_row \<Rightarrow> jsnum list" where
  "encodeRow b row =
     (let latScaled = minMaxScale (Num (LATITUDE row)) (Num (latMin b)) (Num (latMax b));
          lonScaled = minMaxScale (Num (LONGITUDE row)) (Num (lonMin b)) (Num (lonMax b));
          yearScaled = minMaxScale (Num (of_int (FIRE_YEAR row))) (Num (yearMin b)) (Num (yearMax b));
          doyScaled = jdiv (Num (of_int (DISCOVERY_DOY row))) (Num 366)
      in [latScaled, lonScaled, yearScaled, doyScaled])"

definition runTraining :: "(nat \<Rightarrow> real) \<Rightarrow> fire_row list \<Rightarrow> failure + training_data" where
  "runTraining rnd positiveData =
     (if length positiveData = 0 then Inl NoValidRows
      else
        let latValues = map LATITUDE positiveData;
            lonValues = map LONGITUDE positiveData;
            yearValues = map (\<lambda>d. of_int (FIRE_YEAR d)) positiveData
        in
        (case (finite_bounds (findMinMax latValues), finite_bounds (findMinMax lonValues),
               finite_bounds (findMinMax yearValues)) of
           (Some (latMin', latMax'), Some (lonMin', lonMax'), Some (yearMin', yearMax')) \<Rightarrow>
             let bounding' = \<lparr>latMin = latMin', latMax = latMax', lonMin = lonMin',
                               lonMax = lonMax', yearMin = yearMin', yearMax = yearMax'\<rparr>;
                 fireSet' = buildFireSet positiveData;
                 totalPos = int (length positiveData);
                 totalNeg = totalPos;
                 counts = negativeCounts totalNeg;
                 localNegCount' = fst counts;
                 globalNegCount' = fst (snd counts);
                 neverFireNegCount' = snd (snd counts);
                 st0 = \<lparr>posData = positiveData, bounding = bounding', fireSet = fireSet'\<rparr>
             in
             (case createLocalNegativeSamples rnd 0 localNegCount' st0 of
                Inl e \<Rightarrow> Inl e
              | Inr (localNegatives', c1, st1) \<Rightarrow>
                  (case createGlobalNegativeSamples rnd c1 globalNegCount' st1 of
                     (globalNegatives', c2, st2) \<Rightarrow>
                       (case createNeverFireNegatives rnd c2 st2 neverFireNegCount' of
                          Inl e \<Rightarrow> Inl e
                        | Inr (neverFireNegatives', c3, st3, msgs) \<Rightarrow>
                            let negativeData' = localNegatives' @ globalNegatives' @ neverFireNegatives';
                                fullData' = positiveData @ negativeData'
                            in Inr \<lparr>localNegCount = localNegCount',
                                     globalNegCount = globalNegCount',
                                     neverFireNegCount = neverFireNegCount',
                                     localNegatives = localNegatives',
                                     globalNegatives = globalNegatives',
                                     neverFireNegatives = neverFireNegatives',
                                     negativeData = negativeData',
                                     fullData = fullData',
                                     XAll = map (encodeRow bounding') fullData',
                                     yClassAll = map (\<lambda>row. if FIRE_SIZE row > 0 then 1 else 0) fullData',
                                     ySizeAll = map FIRE_SIZE fullData',
                                     final_store = st3,
                                     neverFireLog = msgs\<rparr>)))
         | _ \<Rightarrow> Inl NonFiniteBounds))"


section \<open>The host: dates, time zone and number parsing\<close>

text \<open>
  The pollution scripts call into the JavaScript runtime: \<open>new Date(string)\<close>,
  \<open>new Date(year, month, day)\<close>, the UTC getters and \<open>parseFloat\<close>.  What the language
  leaves to the host is a parameter of the model:
  \<^item> \<open>Date_parse\<close>, the time value (milliseconds since the epoch, UTC) a string parses
    to, \<open>None\<close> for an invalid date, whose time value is \<open>NaN\<close>;
  \<^item> \<open>LocalTZA\<close>, the offset of local time from UTC, in milliseconds, in force at a
    given local time (negative west of Greenwich);
  \<^item> \<open>parseFloat\<close>.
\<close>

record runtime =
  Date_parse :: "string \<Rightarrow> int option"
  LocalTZA :: "int \<Rightarrow> int"
  parseFloat :: "string \<Rightarrow> jsnum"

text \<open>The calendar of the language standard, on day numbers and time values.\<close>

definition msPerDay :: int where
  "msPerDay = 86400000"

definition Day :: "int \<Rightarrow> int" where
  "Day t = t div msPerDay"

definition DayFromYear :: "int \<Rightarrow> int" where
  "DayFromYear y =
     365 * (y - 1970) + (y - 1969) div 4 - (y - 1901) div 100 + (y - 1601) div 400"

definition InLeapYear :: "int \<Rightarrow> bool" where
  "InLeapYear y = (y mod 4 = 0 \<and> (y mod 100 \<noteq> 0 \<or> y mod 400 = 0))"

text \<open>
  \<open>YearFromDay d\<close> is the year \<open>y\<close> with \<open>DayFromYear y \<le> d < DayFromYear (y + 1)\<close>: the
  estimate from the mean length of a year is off by one at most.
\<close>

definition YearFromDay :: "int \<Rightarrow> int" where
  "YearFromDay d =
     (let y0 = 1970 + (d * 400) div 146097 in
      if DayFromYear (y0 + 1) \<le> d then y0 + 1
      else if DayFromYear y0 \<le> d then y0
      else y0 - 1)"

definition YearFromTime :: "int \<Rightarrow> int" where
  "YearFromTime t = YearFromDay (Day t)"

text \<open>The days of a year before its month \<open>m\<close> (0 = January).\<close>

definition DaysBeforeMonth :: "int \<Rightarrow> int \<Rightarrow> int" where
  "DaysBeforeMonth y m =
     [0, 31, 59, 90, 120, 151, 181, 212, 243, 273, 304, 334] ! nat m
       + (if InLeapYear y \<and> 2 \<le> m then 1 else 0)"

definition MonthFromTime :: "int \<Rightarrow> int" where
  "MonthFromTime t =
     (let y = YearFromTime t;
          dayWithinYear = Day t - DayFromYear y
      in int (length (filter (\<lambda>m. DaysBeforeMonth y m \<le> dayWithinYear) [1, 2, 3, 4, 5, 6, 7, 8, 9, 10, 11])))"

text \<open>\<open>MakeDay\<close> for a month in \<open>0..11\<close>, and \<open>TimeClip\<close>.\<close>

definition MakeDay :: "int \<Rightarrow> int \<Rightarrow> int \<Rightarrow> int" where
  "MakeDay y m dt = DayFromYear y + DaysBeforeMonth y m + dt - 1"

definition TimeClip :: "int \<Rightarrow> int option" where
  "TimeClip t = (if \<bar>t\<bar> > 8640000000000000 then None else Some t)"

text \<open>
  A \<open>Date\<close> object is its time value.  \<open>new Date(v)\<close> on a string or \<open>undefined\<close>
  (\<open>None\<close>); \<open>new Date(year, 0, 1)\<close>, which reads its arguments as \<^emph>\<open>local\<close> time: a year
  from 0 to 99 counts from 1900, and the local midnight is moved to UTC by the offset in
  force then.
\<close>

definition newDate :: "runtime \<Rightarrow> string option \<Rightarrow> int option" where
  "newDate rt v = (case v of None \<Rightarrow> None | Some s \<Rightarrow> Date_parse rt s)"

definition newDateLocal :: "runtime \<Rightarrow> jsnum \<Rightarrow> int \<Rightarrow> int \<Rightarrow> int option" where
  "newDateLocal rt year month dt =
     (case year of
        Num y \<Rightarrow>
          let yi = \<lfloor>y\<rfloor>;
              yr = (if 0 \<le> yi \<and> yi \<le> 99 then 1900 + yi else yi);
              finalDate = MakeDay yr month dt * msPerDay
          in TimeClip (finalDate - LocalTZA rt finalDate)
      | _ \<Rightarrow> None)"

definition getUTCFullYear :: "int option \<Rightarrow> jsnum" where
  "getUTCFullYear date = (case date of None \<Rightarrow> NaN | Some t \<Rightarrow> Num (of_int (YearFromTime t)))"

definition getUTCMonth :: "int option \<Rightarrow> jsnum" where
  "getUTCMonth date = (case date of None \<Rightarrow> NaN | Some t \<Rightarrow> Num (of_int (MonthFromTime t)))"

text \<open>A \<open>Date\<close> used as a number, as in \<open>date - startOfYear\<close>.\<close>

definition valueOf :: "int option \<Rightarrow> jsnum" where
  "valueOf date = (case date of None \<Rightarrow> NaN | Some t \<Rightarrow> Num (of_int t))"

text \<open>
  One host to compute with.  Its \<open>Date_parse\<close> reads the date-only form \<open>YYYY-MM-DD\<close>
  of the standard's date-time format, which is UTC midnight of that day; other
  strings are not modelled and give \<open>None\<close> here.  Its \<open>parseFloat\<close> reads a string of
  decimal digits; other strings are not modelled and give \<open>NaN\<close> here.
  \<open>host offset\<close> keeps the offset \<open>offset\<close> all year.
\<close>

definition digit_value :: "char \<Rightarrow> nat option" where
  "digit_value ch =
     (let k = (of_char ch :: nat) in if 48 \<le> k \<and> k \<le> 57 then Some (k - 48) else None)"

fun digits_value :: "nat \<Rightarrow> string \<Rightarrow> nat option" where
  "digits_value acc [] = Some acc"
| "digits_value acc (ch # s) =
     (case digit_value ch of None \<Rightarrow> None | Some d \<Rightarrow> digits_value (acc * 10 + d) s)"

definition DaysInMonth :: "int \<Rightarrow> int \<Rightarrow> int" where
  "DaysInMonth y m =
     (if m = 2 then (if InLeapYear y then 29 else 28)
      else if m = 4 \<or> m = 6 \<or> m = 9 \<or> m = 11 then 30 else 31)"

fun Date_parse_iso :: "string \<Rightarrow> int option" where
  "Date_parse_iso [y1, y2, y3, y4, s1, m1, m2, s2, d1, d2] =
     (if s1 = CHR ''-'' \<and> s2 = CHR ''-'' then
        (case (digits_value 0 [y1, y2, y3, y4], digits_value 0 [m1, m2], digits_value 0 [d1, d2]) of
           (Some y, Some m, Some d) \<Rightarrow>
             if 1 \<le> m \<and> m \<le> 12 \<and> 1 \<le> d \<and> int d \<le> DaysInMonth (int y) (int m)
             then Some (MakeDay (int y) (int m - 1) (int d) * msPerDay)
             else None
         | _ \<Rightarrow> None)
      else None)"
| "Date_parse_iso _ = None"

definition parseFloat_digits :: "string \<Rightarrow> jsnum" where
  "parseFloat_digits s =
     (if s = [] then NaN
      else case digits_value 0 s of None \<Rightarrow> NaN | Some n \<Rightarrow> Num (of_nat n))"

definition host :: "int \<Rightarrow> runtime" where
  "host offset =
     \<lparr>Date_parse = Date_parse_iso, LocalTZA = (\<lambda>t. offset), parseFloat = parseFloat_digits\<rparr>"


section \<open>Pollution model: the cyclical date encoding\<close>

subsection \<open>train.js\<close>

text \<open>
  \<^verbatim>\<open>function encodeCyclical(value, maxValue) {
    const sinVal = Math.sin((2 * Math.PI * value) / maxValue);
    const cosVal = Math.cos((2 * Math.PI * value) / maxValue);
    return [sinVal, cosVal]; }\<close>
\<close>

definition encodeCyclical :: "jsnum \<Rightarrow> jsnum \<Rightarrow> jsnum \<times> jsnum" where
  "encodeCyclical val maxValue =
     (let sinVal = Math_sin (jdiv (jmul (jmul (Num 2) Math_PI) val) maxValue);
          cosVal = Math_cos (jdiv (jmul (jmul (Num 2) Math_PI) val) maxValue)
      in (sinVal, cosVal))"

text \<open>
  The module variables \<open>let globalMinYear = 1990; let globalMaxYear = 2030;\<close>, which
  \<open>runTraining\<close> assigns.
\<close>

record globals =
  globalMinYear :: jsnum
  globalMaxYear :: jsnum

definition initial_globals :: globals where
  "initial_globals = \<lparr>globalMinYear = Num 1990, globalMaxYear = Num 2030\<rparr>"

text \<open>
  The day of the year as \<open>parseDateToFeatures\<close> computes it, from \<open>startOfYear\<close> to
  \<open>dayOfYear\<close>:
  \<^verbatim>\<open>const startOfYear = new Date(fullYear, 0, 1); // Jan 1
  const dayIndex = Math.floor((date - startOfYear) / (1000 * 60 * 60 * 24)) + 1;
  const dayOfYear = Math.max(1, Math.min(dayIndex, 366));\<close>
\<close>

definition dayOfYear :: "runtime \<Rightarrow> int option \<Rightarrow> jsnum \<Rightarrow> jsnum" where
  "dayOfYear rt date fullYear =
     (let startOfYear = newDateLocal rt fullYear 0 1;
          dayIndex = jadd (Math_floor (jdiv (jsub (valueOf date) (valueOf startOfYear))
                                            (Num (1000 * 60 * 60 * 24)))) (Num 1)
      in Math_max (Num 1) (Math_min dayIndex (Num 366)))"

definition parseDateToFeatures :: "runtime \<Rightarrow> globals \<Rightarrow> string option \<Rightarrow> jsnum list" where
  "parseDateToFeatures rt g dateString =
     (let date = newDate rt dateString;
          fullYear = getUTCFullYear date;
          yearScaled = jdiv (jsub fullYear (globalMinYear g))
                            (jsub (globalMaxYear g) (globalMinYear g));
          month = jadd (getUTCMonth date) (Num 1);
          (monthSin, monthCos) = encodeCyclical month (Num 12);
          doy = dayOfYear rt date fullYear;
          (daySin, dayCos) = encodeCyclical doy (Num 366)
      in [yearScaled, monthSin, monthCos, daySin, dayCos])"

text \<open>A row of the CSV file: the text of its columns, by name.\<close>

type_synonym csv_row = "string \<rightharpoonup> string"

text \<open>
  \<open>loadDataset\<close> keeps a row unless \<open>Date\<close>, \<open>Latitude_Geocoded\<close> or
  \<open>Longitude_Geocoded\<close> is missing or empty.
\<close>

definition falsy :: "string option \<Rightarrow> bool" where
  "falsy v = (v = None \<or> v = Some [])"

definition loadDataset :: "csv_row list \<Rightarrow> csv_row list" where
  "loadDataset parsed =
     filter (\<lambda>row. \<not> (falsy (row ''Date'') \<or> falsy (row ''Latitude_Geocoded'')
                        \<or> falsy (row ''Longitude_Geocoded''))) parsed"

text \<open>\<open>findMinMaxYear\<close>; \<open>scanYear\<close> is the body of its loop.\<close>

definition scanYear :: "runtime \<Rightarrow> csv_row \<Rightarrow> jsnum \<times> jsnum \<Rightarrow> jsnum \<times> jsnum" where
  "scanYear rt row acc =
     (case acc of (minY, maxY) \<Rightarrow>
        let dateVal = row ''Date'';
            year = getUTCFullYear (newDate rt dateVal)
        in (if jlt year minY then year else minY, if jgt year maxY then year else maxY))"

definition findMinMaxYear :: "runtime \<Rightarrow> csv_row list \<Rightarrow> jsnum \<times> jsnum" where
  "findMinMaxYear rt rows = fold (scanYear rt) rows (PosInf, NegInf)"

text \<open>
  \<open>parseFloat(v)\<close> on a column that may be missing: \<open>undefined\<close> is first turned into
  the string \<open>undefined\<close>.
\<close>

definition parseFloat_of :: "runtime \<Rightarrow> string option \<Rightarrow> jsnum" where
  "parseFloat_of rt v = parseFloat rt (case v of None \<Rightarrow> ''undefined'' | Some s \<Rightarrow> s)"

text \<open>
  \<^verbatim>\<open>function safeParse(str) {
    const val = parseFloat(str);
    return isNaN(val) ? 0.0 : val; }\<close>
\<close>

definition safeParse :: "runtime \<Rightarrow> string option \<Rightarrow> jsnum" where
  "safeParse rt str = (let val = parseFloat_of rt str in if isNaN val then Num 0 else val)"

text \<open>
  The sixteen target columns, in the order in which \<open>rowToFeatureTarget\<close> parses them
  and lists them in \<open>targetValues\<close>.
\<close>

definition targetColumns :: "string list" where
  "targetColumns =
     [''O3 Mean'', ''O3 1st Max Value'', ''O3 1st Max Hour'', ''O3 AQI'',
      ''CO Mean'', ''CO 1st Max Value'', ''CO 1st Max Hour'', ''CO AQI'',
      ''SO2 Mean'', ''SO2 1st Max Value'', ''SO2 1st Max Hour'', ''SO2 AQI'',
      ''NO2 Mean'', ''NO2 1st Max Value'', ''NO2 1st Max Hour'', ''NO2 AQI'']"

definition rowToFeatureTarget :: "runtime \<Rightarrow> globals \<Rightarrow> csv_row \<Rightarrow> jsnum list \<times> jsnum list" where
  "rowToFeatureTarget rt g row =
     (let dateFeatures = parseDateToFeatures rt g (row ''Date'');
          longitude = parseFloat_of rt (row ''Longitude_Geocoded'');
          latitude = parseFloat_of rt (row ''Latitude_Geocoded'');
          targetValues = map (\<lambda>column. safeParse rt (row column)) targetColumns;
          inputFeatures = dateFeatures @ [longitude, latitude]
      in (inputFeatures, targetValues))"

text \<open>
  \<open>runTraining\<close> of train.js from the loaded rows to \<open>allFeatures\<close> and \<open>allTargets\<close>:
  it assigns the two module variables from the data, then converts every row.
\<close>

record pollution_data =
  trained_globals :: globals
  allFeatures :: "jsnum list list"
  allTargets :: "jsnum list list"

definition pollution_runTraining :: "runtime \<Rightarrow> csv_row list \<Rightarrow> pollution_data" where
  "pollution_runTraining rt rows =
     (let minMax = findMinMaxYear rt rows;
          g = \<lparr>globalMinYear = fst minMax, globalMaxYear = snd minMax\<rparr>
      in \<lparr>trained_globals = g,
           allFeatures = map (\<lambda>row. fst (rowToFeatureTarget rt g row)) rows,
           allTargets = map (\<lambda>row. snd (rowToFeatureTarget rt g row)) rows\<rparr>)"


subsection \<open>predict.js\<close>

definition predict_globalMinYear :: jsnum where
  "predict_globalMinYear = Num 1990"

definition predict_globalMaxYear :: jsnum where
  "predict_globalMaxYear = Num 2030"

definition predict_encodeCyclical :: "jsnum \<Rightarrow> jsnum \<Rightarrow> jsnum \<times> jsnum" where
  "predict_encodeCyclical val maxValue =
     (let sinVal = Math_sin (jdiv (jmul (jmul (Num 2) Math_PI) val) maxValue);
          cosVal = Math_cos (jdiv (jmul (jmul (Num 2) Math_PI) val) maxValue)
      in (sinVal, cosVal))"

definition predict_dayOfYear :: "runtime \<Rightarrow> int option \<Rightarrow> jsnum \<Rightarrow> jsnum" where
  "predict_dayOfYear rt date fullYear =
     (let startOfYear = newDateLocal rt fullYear 0 1;
          dayIndex = jadd (Math_floor (jdiv (jsub (valueOf date) (valueOf startOfYear))
                                            (Num (1000 * 60 * 60 * 24)))) (Num 1)
      in Math_max (Num 1) (Math_min dayIndex (Num 366)))"

definition predict_parseDateToFeatures :: "runtime \<Rightarrow> string option \<Rightarrow> jsnum list" where
  "predict_parseDateToFeatures rt dateString =
     (let date = newDate rt dateString;
          fullYear = getUTCFullYear date;
          yearScaled = jdiv (jsub fullYear predict_globalMinYear)
                            (jsub predict_globalMaxYear predict_globalMinYear);
          month = jadd (getUTCMonth date) (Num 1);
          (monthSin, monthCos) = predict_encodeCyclical month (Num 12);
          doy = predict_dayOfYear rt date fullYear;
          (daySin, dayCos) = predict_encodeCyclical doy (Num 366)
      in [yearScaled, monthSin, monthCos, daySin, dayCos])"


section \<open>Notions used in the statements\<close>

text \<open>\<open>Math.random()\<close> returns a number in \<open>[0, 1)\<close>: so does every draw of the sequence.\<close>

definition unit_draws :: "(nat \<Rightarrow> real) \<Rightarrow> bool" where
  "unit_draws rnd = (\<forall>k. 0 \<le> rnd k \<and> rnd k < 1)"

text \<open>The number of rows whose latitude and longitude fall into the cell \<open>(cLat, cLon)\<close>.\<close>

definition cellCount :: "fire_row list \<Rightarrow> bounding_box \<Rightarrow> int \<Rightarrow> int \<Rightarrow> nat" where
  "cellCount rows b cLat cLon =
     length (filter (\<lambda>row. latToCell b (LATITUDE row) = cLat \<and>
                            lonToCell b (LONGITUDE row) = cLon) rows)"

text \<open>
  \<open>grown st new st'\<close>: the store \<open>st'\<close> is \<open>st\<close> with the keys of the rows \<open>new\<close> added to
  the set and nothing else changed; the keys of \<open>new\<close> are pairwise different and none
  was in the set of \<open>st\<close>.
\<close>

definition grown :: "store \<Rightarrow> fire_row list \<Rightarrow> store \<Rightarrow> bool" where
  "grown st new st' =
     (posData st' = posData st \<and> bounding st' = bounding st \<and>
      fireSet st' = fireSet st \<union> rowKey ` set new \<and>
      distinct (map rowKey new) \<and> rowKey ` set new \<inter> fireSet st = {})"

text \<open>
  A small data set to run the model on: the two fires
  \<open>{lat: 30, lon: -80, year: 2020, doy: 100, size: 5}\<close> and
  \<open>{lat: 31, lon: -81, year: 2021, doy: 150, size: 3}\<close>, their bounding box and the
  store a run starts the generators with; and a constant random source.
\<close>

definition two_fires :: "fire_row list" where
  "two_fires =
     [\<lparr>FIRE_SIZE = 5, LATITUDE = 30, LONGITUDE = - 80, FIRE_YEAR = 2020, DISCOVERY_DOY = 100\<rparr>,
      \<lparr>FIRE_SIZE = 3, LATITUDE = 31, LONGITUDE = - 81, FIRE_YEAR = 2021, DISCOVERY_DOY = 150\<rparr>]"

definition two_fires_box :: bounding_box where
  "two_fires_box =
     \<lparr>latMin = 30, latMax = 31, lonMin = - 81, lonMax = - 80, yearMin = 2020, yearMax = 2021\<rparr>"

definition two_fires_store :: store where
  "two_fires_store =
     \<lparr>posData = two_fires, bounding = two_fires_box, fireSet = buildFireSet two_fires\<rparr>"

definition quarter_draws :: "nat \<Rightarrow> real" where
  "quarter_draws k = 1 / 4"

text \<open>
  The rows the generators draw from the two fires with that source: one near the first
  fire, one further away.
\<close>

definition near_row :: fire_row where
  "near_row = \<lparr>FIRE_SIZE = 0, LATITUDE = 30, LONGITUDE = - (321 / 4), FIRE_YEAR = 2020,
                DISCOVERY_DOY = 92\<rparr>"

definition far_row :: fire_row where
  "far_row = \<lparr>FIRE_SIZE = 0, LATITUDE = 121 / 4, LONGITUDE = - (323 / 4), FIRE_YEAR = 2020,
               DISCOVERY_DOY = 92\<rparr>"

text \<open>A data set of one fire, and the same fire recorded twice.\<close>

definition one_fire :: "fire_row list" where
  "one_fire =
     [\<lparr>FIRE_SIZE = 5, LATITUDE = 30, LONGITUDE = - 80, FIRE_YEAR = 2020, DISCOVERY_DOY = 100\<rparr>]"

definition twin_fires :: "fire_row list" where
  "twin_fires = one_fire @ one_fire"

text \<open>
  Two hosts, on UTC and five hours west of it (the offset of the eastern United States
  on the first of January), and three small CSV files.
\<close>

definition utc :: runtime where
  "utc = host 0"

definition utc_minus_5 :: runtime where
  "utc_minus_5 = host (- 18000000)"



definition rows_malformed :: "csv_row list" where
  "rows_malformed =
     [[''Date'' \<mapsto> ''2000-01-01'', ''Latitude_Geocoded'' \<mapsto> ''33'',
       ''Longitude_Geocoded'' \<mapsto> ''112'', ''O3 Mean'' \<mapsto> ''n/a'', ''O3 AQI'' \<mapsto> ''37'']]"


section \<open>Lemmas on the scaling\<close>

lemma minMaxScale_finite:
  "minMaxScale (Num v) (Num mn) (Num mx) = Num (if mx = mn then 0 else (v - mn) / (mx - mn))"
  by (simp add: minMaxScale_def jeq_def jsub_def)

lemma predictFire_minMaxScale_finite:
  "predictFire_minMaxScale (Num v) (Num mn) (Num mx) =
     Num (if mx = mn then 0 else (v - mn) / (mx - mn))"
  by (simp add: predictFire_minMaxScale_def jeq_def jsub_def)

lemma unit_quotient:
  fixes v mn mx :: real
  assumes "mn \<le> v" "v \<le> mx"
  shows "0 \<le> (if mx = mn then 0 else (v - mn) / (mx - mn))"
    and "(if mx = mn then 0 else (v - mn) / (mx - mn)) \<le> 1"
  using assms by (auto simp: divide_le_eq_1)


section \<open>Lemmas on the generators\<close>

subsection \<open>The key of a candidate is the key of its row\<close>

lemma local_candidate_key:
  "local_candidate rnd c st = Inr (row, key) \<Longrightarrow> key = rowKey row"
  by (auto simp: local_candidate_def rowKey_def Let_def split: if_splits)

lemma global_candidate_key:
  "global_candidate rnd c st = (row, key) \<Longrightarrow> key = rowKey row"
  by (auto simp: global_candidate_def rowKey_def Let_def)

lemma never_candidate_key:
  "never_candidate rnd c cells st = Inr (row, key) \<Longrightarrow> key = rowKey row"
  by (auto simp: never_candidate_def rowKey_def Let_def split: if_splits)

subsection \<open>What a loop leaves behind\<close>

lemma grown_nil: "grown st [] st"
  by (simp add: grown_def)

lemma grown_step:
  assumes "rowKey row \<notin> fireSet st"
    and "grown (st\<lparr>fireSet := insert (rowKey row) (fireSet st)\<rparr>) new st'"
  shows "grown st (row # new) st'"
  using assms by (auto simp: grown_def)

lemma grown_trans:
  assumes "grown st xs st'" and "grown st' ys st''"
  shows "grown st (xs @ ys) st''"
  using assms by (auto simp: grown_def)

lemma local_loop_grown:
  assumes "local_loop rnd n maxA negs att c st = Inr (negs', c', st')"
  shows "\<exists>new. negs' = negs @ new \<and> grown st new st' \<and>
           (\<forall>row \<in> set new. \<exists>k s. posData s = posData st \<and> bounding s = bounding st \<and>
               local_candidate rnd k s = Inr (row, rowKey row))"
  using assms
proof (induction rnd n maxA negs att c st rule: local_loop.induct)
  case (1 rnd n maxA negs att c st)
  show ?case
  proof (cases "int (length negs) < n \<and> att < maxA")
    case False
    with "1.prems" have "negs' = negs" "st' = st"
      by (simp_all add: local_loop.simps)
    then show ?thesis by (simp add: grown_nil)
  next
    case go: True
    with "1.prems" obtain row key where cand: "local_candidate rnd c st = Inr (row, key)"
      by (auto simp: local_loop.simps split: sum.splits)
    have key: "key = rowKey row" using cand by (rule local_candidate_key)
    show ?thesis
    proof (cases "key \<in> fireSet st")
      case True
      with go cand "1.prems"
      have "local_loop rnd n maxA negs (att + 1) (c + 4) st = Inr (negs', c', st')"
        by (simp add: local_loop.simps [of rnd n maxA negs att c st])
      from "1.IH"(2) [OF go cand refl _ this] True show ?thesis by simp
    next
      case False
      let ?st = "st\<lparr>fireSet := insert key (fireSet st)\<rparr>"
      from False go cand "1.prems"
      have "local_loop rnd n maxA (negs @ [row]) (att + 1) (c + 4) ?st = Inr (negs', c', st')"
        by (simp add: local_loop.simps [of rnd n maxA negs att c st])
      from "1.IH"(1) [OF go cand refl False this]
      obtain new where n: "negs' = (negs @ [row]) @ new" and g: "grown ?st new st'"
        and p: "\<forall>r \<in> set new. \<exists>k s. posData s = posData st \<and> bounding s = bounding st \<and>
                    local_candidate rnd k s = Inr (r, rowKey r)"
        by auto
      have "negs' = negs @ (row # new)" using n by simp
      moreover have "grown st (row # new) st'"
        using False g key by (auto intro: grown_step)
      moreover have "\<forall>r \<in> set (row # new). \<exists>k s. posData s = posData st \<and>
                    bounding s = bounding st \<and> local_candidate rnd k s = Inr (r, rowKey r)"
        using p cand key by auto
      ultimately show ?thesis by blast
    qed
  qed
qed

lemma global_loop_grown:
  assumes "global_loop rnd n maxA negs att c st = (negs', c', st')"
  shows "\<exists>new. negs' = negs @ new \<and> grown st new st' \<and>
           (\<forall>row \<in> set new. \<exists>k s. posData s = posData st \<and> bounding s = bounding st \<and>
               global_candidate rnd k s = (row, rowKey row))"
  using assms
proof (induction rnd n maxA negs att c st rule: global_loop.induct)
  case (1 rnd n maxA negs att c st)
  show ?case
  proof (cases "int (length negs) < n \<and> att < maxA")
    case False
    with "1.prems" have "negs' = negs" "st' = st"
      by (simp_all add: global_loop.simps)
    then show ?thesis by (simp add: grown_nil)
  next
    case go: True
    obtain row key where cand: "global_candidate rnd c st = (row, key)"
      by (cases "global_candidate rnd c st")
    have key: "key = rowKey row" using cand by (rule global_candidate_key)
    show ?thesis
    proof (cases "key \<in> fireSet st")
      case True
      with go cand "1.prems"
      have "global_loop rnd n maxA negs (att + 1) (c + 4) st = (negs', c', st')"
        by (simp add: global_loop.simps [of rnd n maxA negs att c st])
      from "1.IH"(2) [OF go cand [symmetric] _ this] True show ?thesis by simp
    next
      case False
      let ?st = "st\<lparr>fireSet := insert key (fireSet st)\<rparr>"
      from False go cand "1.prems"
      have "global_loop rnd n maxA (negs @ [row]) (att + 1) (c + 4) ?st = (negs', c', st')"
        by (simp add: global_loop.simps [of rnd n maxA negs att c st])
      from "1.IH"(1) [OF go cand [symmetric] False this]
      obtain new where n: "negs' = (negs @ [row]) @ new" and g: "grown ?st new st'"
        and p: "\<forall>r \<in> set new. \<exists>k s. posData s = posData st \<and> bounding s = bounding st \<and>
                    global_candidate rnd k s = (r, rowKey r)"
        by auto
      have "negs' = negs @ (row # new)" using n by simp
      moreover have "grown st (row # new) st'"
        using False g key by (auto intro: grown_step)
      moreover have "\<forall>r \<in> set (row # new). \<exists>k s. posData s = posData st \<and>
                    bounding s = bounding st \<and> global_candidate rnd k s = (r, rowKey r)"
        using p cand key by auto
      ultimately show ?thesis by blast
    qed
  qed
qed

lemma never_loop_grown:
  assumes "never_loop rnd cells n maxA negs att c st = Inr (negs', c', st')"
  shows "\<exists>new. negs' = negs @ new \<and> grown st new st' \<and>
           (\<forall>row \<in> set new. \<exists>k s. posData s = posData st \<and> bounding s = bounding st \<and>
               never_candidate rnd k cells s = Inr (row, rowKey row))"
  using assms
proof (induction rnd cells n maxA negs att c st rule: never_loop.induct)
  case (1 rnd cells n maxA negs att c st)
  show ?case
  proof (cases "int (length negs) < n \<and> att < maxA")
    case False
    with "1.prems" have "negs' = negs" "st' = st"
      by (simp_all add: never_loop.simps)
    then show ?thesis by (simp add: grown_nil)
  next
    case go: True
    with "1.prems" obtain row key where cand: "never_candidate rnd c cells st = Inr (row, key)"
      by (auto simp: never_loop.simps split: sum.splits)
    have key: "key = rowKey row" using cand by (rule never_candidate_key)
    show ?thesis
    proof (cases "key \<in> fireSet st")
      case True
      with go cand "1.prems"
      have "never_loop rnd cells n maxA negs (att + 1) (c + 5) st = Inr (negs', c', st')"
        by (simp add: never_loop.simps [of rnd cells n maxA negs att c st])
      from "1.IH"(2) [OF go cand refl _ this] True show ?thesis by simp
    next
      case False
      let ?st = "st\<lparr>fireSet := insert key (fireSet st)\<rparr>"
      from False go cand "1.prems"
      have "never_loop rnd cells n maxA (negs @ [row]) (att + 1) (c + 5) ?st = Inr (negs', c', st')"
        by (simp add: never_loop.simps [of rnd cells n maxA negs att c st])
      from "1.IH"(1) [OF go cand refl False this]
      obtain new where n: "negs' = (negs @ [row]) @ new" and g: "grown ?st new st'"
        and p: "\<forall>r \<in> set new. \<exists>k s. posData s = posData st \<and> bounding s = bounding st \<and>
                    never_candidate rnd k cells s = Inr (r, rowKey r)"
        by auto
      have "negs' = negs @ (row # new)" using n by simp
      moreover have "grown st (row # new) st'"
        using False g key by (auto intro: grown_step)
      moreover have "\<forall>r \<in> set (row # new). \<exists>k s. posData s = posData st \<and>
                    bounding s = bounding st \<and> never_candidate rnd k cells s = Inr (r, rowKey r)"
        using p cand key by auto
      ultimately show ?thesis by blast
    qed
  qed
qed


subsection \<open>The loops return\<close>

lemma local_loop_idle:
  assumes "\<not> (int (length negs) < n \<and> att < maxA)"
  shows "local_loop rnd n maxA negs att c st = Inr (negs, c, st)"
  by (subst local_loop.simps) (simp only: assms if_False)

lemma global_loop_idle:
  assumes "\<not> (int (length negs) < n \<and> att < maxA)"
  shows "global_loop rnd n maxA negs att c st = (negs, c, st)"
  by (subst global_loop.simps) (simp only: assms if_False)

lemma never_loop_idle:
  assumes "\<not> (int (length negs) < n \<and> att < maxA)"
  shows "never_loop rnd cells n maxA negs att c st = Inr (negs, c, st)"
  by (subst never_loop.simps) (simp only: assms if_False)

lemma random_index:
  assumes "0 \<le> r" "r < 1" "0 < n"
  shows "0 \<le> \<lfloor>r * real n\<rfloor>" and "\<lfloor>r * real n\<rfloor> < int n"
proof -
  show "0 \<le> \<lfloor>r * real n\<rfloor>" using assms by simp
  have "r * real n < real n" using assms by simp
  then show "\<lfloor>r * real n\<rfloor> < int n" by (simp add: floor_less_iff)
qed

lemma local_candidate_total:
  assumes "unit_draws rnd" and "posData st \<noteq> []"
  shows "\<exists>row. local_candidate rnd c st = Inr (row, rowKey row)"
proof -
  have r: "0 \<le> rnd c" "rnd c < 1" using assms(1) by (simp_all add: unit_draws_def)
  have n: "0 < length (posData st)" using assms(2) by simp
  from random_index [OF r n]
  have "\<not> (\<lfloor>rnd c * real (length (posData st))\<rfloor> < 0
            \<or> int (length (posData st)) \<le> \<lfloor>rnd c * real (length (posData st))\<rfloor>)"
    by linarith
  then obtain row key where "local_candidate rnd c st = Inr (row, key)"
    by (simp add: local_candidate_def Let_def)
  then show ?thesis using local_candidate_key by blast
qed

lemma never_candidate_total:
  assumes "unit_draws rnd" and "cells \<noteq> []"
  shows "\<exists>row. never_candidate rnd c cells st = Inr (row, rowKey row)"
proof -
  have r: "0 \<le> rnd c" "rnd c < 1" using assms(1) by (simp_all add: unit_draws_def)
  have n: "0 < length cells" using assms(2) by simp
  from random_index [OF r n]
  have "\<not> (\<lfloor>rnd c * real (length cells)\<rfloor> < 0
            \<or> int (length cells) \<le> \<lfloor>rnd c * real (length cells)\<rfloor>)"
    by linarith
  then obtain row key where "never_candidate rnd c cells st = Inr (row, key)"
    by (simp add: never_candidate_def Let_def)
  then show ?thesis using never_candidate_key by blast
qed

lemma local_loop_total:
  assumes "unit_draws rnd" and "posData st \<noteq> []"
  shows "\<exists>res. local_loop rnd n maxA negs att c st = Inr res"
  using assms
proof (induction rnd n maxA negs att c st rule: local_loop.induct)
  case (1 rnd n maxA negs att c st)
  show ?case
  proof (cases "int (length negs) < n \<and> att < maxA")
    case False
    then show ?thesis by (simp add: local_loop_idle)
  next
    case go: True
    from local_candidate_total [OF "1.prems"] obtain row
      where cand: "local_candidate rnd c st = Inr (row, rowKey row)" by blast
    show ?thesis
    proof (cases "rowKey row \<in> fireSet st")
      case True
      from "1.IH"(2) [OF go cand refl _ "1.prems"] True go cand show ?thesis
        by (simp add: local_loop.simps [of rnd n maxA negs att c st])
    next
      case False
      from "1.IH"(1) [OF go cand refl False "1.prems"(1)] "1.prems"(2) False go cand
      show ?thesis
        by (simp add: local_loop.simps [of rnd n maxA negs att c st])
    qed
  qed
qed

lemma never_loop_total:
  assumes "unit_draws rnd" and "cells \<noteq> []"
  shows "\<exists>res. never_loop rnd cells n maxA negs att c st = Inr res"
  using assms
proof (induction rnd cells n maxA negs att c st rule: never_loop.induct)
  case (1 rnd cells n maxA negs att c st)
  show ?case
  proof (cases "int (length negs) < n \<and> att < maxA")
    case False
    then show ?thesis by (simp add: never_loop_idle)
  next
    case go: True
    from never_candidate_total [OF "1.prems"] obtain row
      where cand: "never_candidate rnd c cells st = Inr (row, rowKey row)" by blast
    show ?thesis
    proof (cases "rowKey row \<in> fireSet st")
      case True
      from "1.IH"(2) [OF go cand refl _ "1.prems"] True go cand show ?thesis
        by (simp add: never_loop.simps [of rnd cells n maxA negs att c st])
    next
      case False
      from "1.IH"(1) [OF go cand refl False "1.prems"] False go cand
      show ?thesis
        by (simp add: never_loop.simps [of rnd cells n maxA negs att c st])
    qed
  qed
qed

subsection \<open>What a loop emits is bounded by the quota\<close>



lemma never_loop_length:
  assumes "never_loop rnd cells n maxA negs att c st = Inr (negs', c', st')"
    and "int (length negs) \<le> max 0 n"
  shows "int (length negs') \<le> max 0 n"
  using assms
proof (induction rnd cells n maxA negs att c st rule: never_loop.induct)
  case (1 rnd cells n maxA negs att c st)
  show ?case
  proof (cases "int (length negs) < n \<and> att < maxA")
    case False
    with "1.prems" show ?thesis by (simp add: never_loop.simps)
  next
    case go: True
    with "1.prems" obtain row key where cand: "never_candidate rnd c cells st = Inr (row, key)"
      by (auto simp: never_loop.simps split: sum.splits)
    show ?thesis
    proof (cases "key \<in> fireSet st")
      case True
      with go cand "1.prems"
      have "never_loop rnd cells n maxA negs (att + 1) (c + 5) st = Inr (negs', c', st')"
        by (simp add: never_loop.simps [of rnd cells n maxA negs att c st])
      from "1.IH"(2) [OF go cand refl _ this "1.prems"(2)] True show ?thesis by simp
    next
      case False
      with go cand "1.prems"
      have "never_loop rnd cells n maxA (negs @ [row]) (att + 1) (c + 5)
              (st\<lparr>fireSet := insert key (fireSet st)\<rparr>) = Inr (negs', c', st')"
        by (simp add: never_loop.simps [of rnd cells n maxA negs att c st])
      from "1.IH"(1) [OF go cand refl False this] go show ?thesis by simp
    qed
  qed
qed


subsection \<open>Decimal text determines the number\<close>

lemma digit_inj:
  assumes "a < 10" "b < 10" "digit a = digit b"
  shows "a = b"
proof -
  have d: "distinct ''0123456789''" by simp
  have "a < length ''0123456789''" "b < length ''0123456789''" using assms by simp_all
  with d assms(3) show ?thesis
    unfolding digit_def by (simp only: nth_eq_iff_index_eq)
qed

lemma digit_in_digits:
  assumes "a < 10"
  shows "digit a \<in> set ''0123456789''"
proof -
  have "a < length ''0123456789''" using assms by simp
  then show ?thesis unfolding digit_def by (rule nth_mem)
qed

lemma show_nat_small: "n < 10 \<Longrightarrow> show_nat n = [digit n]"
  by (simp add: show_nat.simps)

lemma show_nat_big: "\<not> n < 10 \<Longrightarrow> show_nat n = show_nat (n div 10) @ [digit (n mod 10)]"
  by (subst show_nat.simps) simp

lemma show_nat_not_nil: "show_nat n \<noteq> []"
  by (cases "n < 10") (simp_all add: show_nat_small show_nat_big)

lemma show_nat_digits: "set (show_nat n) \<subseteq> set ''0123456789''"
proof (induction n rule: show_nat.induct)
  case (1 n)
  show ?case
  proof (cases "n < 10")
    case True
    then show ?thesis using digit_in_digits [of n] by (simp add: show_nat_small)
  next
    case False
    have "n mod 10 < 10" by simp
    from digit_in_digits [OF this] "1.IH" [OF False] False show ?thesis
      by (simp add: show_nat_big)
  qed
qed

lemma show_nat_inj: "show_nat n = show_nat m \<Longrightarrow> n = m"
proof (induction n arbitrary: m rule: show_nat.induct)
  case (1 n)
  show ?case
  proof (cases "n < 10")
    case small: True
    show ?thesis
    proof (cases "m < 10")
      case True
      with small "1.prems" show ?thesis by (simp add: show_nat_small digit_inj)
    next
      case False
      with small "1.prems" show_nat_not_nil [of "m div 10"] show ?thesis
        by (simp add: show_nat_small show_nat_big)
    qed
  next
    case big: False
    show ?thesis
    proof (cases "m < 10")
      case True
      with big "1.prems" show_nat_not_nil [of "n div 10"] show ?thesis
        by (simp add: show_nat_small show_nat_big)
    next
      case False
      with big "1.prems"
      have e: "show_nat (n div 10) = show_nat (m div 10)" "digit (n mod 10) = digit (m mod 10)"
        by (simp_all add: show_nat_big)
      have "n div 10 = m div 10" using "1.IH" [OF big e(1)] .
      moreover have "n mod 10 = m mod 10" using e(2) by (intro digit_inj) simp_all
      ultimately show ?thesis by (metis div_mult_mod_eq)
    qed
  qed
qed

lemma show_int_inj: "show_int i = show_int j \<Longrightarrow> i = j"
proof -
  assume e: "show_int i = show_int j"
  have minus: "CHR ''-'' \<notin> set (show_nat n)" for n
    using show_nat_digits [of n] by auto
  have hd_minus: "show_nat n \<noteq> CHR ''-'' # s" for n s
    using minus [of n] by (metis list.set_intros(1))
  show ?thesis
  proof (cases "i < 0")
    case ni: True
    show ?thesis
    proof (cases "j < 0")
      case True
      with ni e have "show_nat (nat (- i)) = show_nat (nat (- j))" by (simp add: show_int_def)
      then have "nat (- i) = nat (- j)" by (rule show_nat_inj)
      with ni True show ?thesis by simp
    next
      case False
      with ni e hd_minus show ?thesis by (simp add: show_int_def) metis
    qed
  next
    case pi: False
    show ?thesis
    proof (cases "j < 0")
      case True
      with pi e hd_minus show ?thesis by (simp add: show_int_def)
    next
      case False
      with pi e have "show_nat (nat i) = show_nat (nat j)" by (simp add: show_int_def)
      then have "nat i = nat j" by (rule show_nat_inj)
      with pi False show ?thesis by simp
    qed
  qed
qed

lemma show_int_no_comma: "CHR '','' \<notin> set (show_int i)"
  using show_nat_digits [of "nat i"] show_nat_digits [of "nat (- i)"]
  by (auto simp: show_int_def)

lemma cellId_inj: "cellId a b = cellId a' b' \<longleftrightarrow> a = a' \<and> b = b'"
proof
  assume "cellId a b = cellId a' b'"
  then have "show_int a @ CHR '','' # show_int b = show_int a' @ CHR '','' # show_int b'"
    by (simp add: cellId_def)
  then have "show_int a = show_int a' \<and> show_int b = show_int b'"
    using append_Cons_eq_iff [OF show_int_no_comma [of a] show_int_no_comma [of b]]
    by blast
  then show "a = a' \<and> b = b'" by (simp add: show_int_inj)
qed simp


subsection \<open>The key set and the bounds of the positive rows\<close>

lemma fold_insert_keys:
  "fold (\<lambda>row fs. insert (rowKey row) fs) rows S = S \<union> rowKey ` set rows"
  by (induction rows arbitrary: S) auto

lemma buildFireSet_keys: "buildFireSet rows = rowKey ` set rows"
  by (simp add: buildFireSet_def fold_insert_keys)

lemma findMinMax_fold_finite:
  "\<exists>mn mx. fold scanMinMax xs (Num a, Num b) = (Num mn, Num mx)
     \<and> mn \<le> a \<and> b \<le> mx \<and> (\<forall>x \<in> set xs. mn \<le> x \<and> x \<le> mx)"
proof (induction xs arbitrary: a b)
  case Nil
  show ?case by simp
next
  case (Cons x xs)
  let ?a = "if x < a then x else a" and ?b = "if b < x then x else b"
  have step: "scanMinMax x (Num a, Num b) = (Num ?a, Num ?b)"
    by (simp add: scanMinMax_def jgt_def)
  from Cons.IH [of ?a ?b] obtain mn mx where
    f: "fold scanMinMax xs (Num ?a, Num ?b) = (Num mn, Num mx)"
    and le: "mn \<le> ?a" "?b \<le> mx" and al: "\<forall>y \<in> set xs. mn \<le> y \<and> y \<le> mx"
    by blast
  have "mn \<le> a" "b \<le> mx" "mn \<le> x" "x \<le> mx"
    using le by (auto split: if_splits)
  moreover have "fold scanMinMax (x # xs) (Num a, Num b) = (Num mn, Num mx)"
    using f step by simp
  ultimately show ?case using al by (intro exI [of _ mn] exI [of _ mx]) simp
qed

lemma findMinMax_finite:
  assumes "xs \<noteq> []"
  shows "\<exists>mn mx. finite_bounds (findMinMax xs) = Some (mn, mx) \<and> mn \<le> mx
           \<and> (\<forall>x \<in> set xs. mn \<le> x \<and> x \<le> mx)"
proof -
  obtain x ys where xs: "xs = x # ys" using assms by (cases xs) auto
  have step: "scanMinMax x (PosInf, NegInf) = (Num x, Num x)"
    by (simp add: scanMinMax_def jgt_def)
  from findMinMax_fold_finite [of ys x x] obtain mn mx where
    f: "fold scanMinMax ys (Num x, Num x) = (Num mn, Num mx)"
    and le: "mn \<le> x" "x \<le> mx" and al: "\<forall>y \<in> set ys. mn \<le> y \<and> y \<le> mx"
    by blast
  have "findMinMax xs = (Num mn, Num mx)"
    using f step by (simp add: findMinMax_def xs)
  with le al xs show ?thesis by auto
qed

subsection \<open>The occupancy map counts the rows of each cell\<close>

lemma countRow_at:
  "countRow b row m (cellId cLat cLon) =
     (if latToCell b (LATITUDE row) = cLat \<and> lonToCell b (LONGITUDE row) = cLon
      then Some ((case m (cellId cLat cLon) of None \<Rightarrow> 0 | Some k \<Rightarrow> k) + 1)
      else m (cellId cLat cLon))"
  by (simp add: countRow_def Let_def cellId_inj)

lemma fireCellMap_fold:
  "fold (countRow b) rows m0 (cellId cLat cLon) =
     (if cellCount rows b cLat cLon = 0 then m0 (cellId cLat cLon)
      else Some ((case m0 (cellId cLat cLon) of None \<Rightarrow> 0 | Some k \<Rightarrow> k)
                   + cellCount rows b cLat cLon))"
proof (induction rows arbitrary: m0)
  case Nil
  show ?case by (simp add: cellCount_def)
next
  case (Cons row rows)
  have "fold (countRow b) (row # rows) m0 (cellId cLat cLon)
          = fold (countRow b) rows (countRow b row m0) (cellId cLat cLon)"
    by simp
  also have "\<dots> = (if cellCount rows b cLat cLon = 0 then countRow b row m0 (cellId cLat cLon)
      else Some ((case countRow b row m0 (cellId cLat cLon) of None \<Rightarrow> 0 | Some k \<Rightarrow> k)
                   + cellCount rows b cLat cLon))"
    by (rule Cons.IH)
  also have "\<dots> = (if cellCount (row # rows) b cLat cLon = 0 then m0 (cellId cLat cLon)
      else Some ((case m0 (cellId cLat cLon) of None \<Rightarrow> 0 | Some k \<Rightarrow> k)
                   + cellCount (row # rows) b cLat cLon))"
    by (simp add: countRow_at cellCount_def)
  finally show ?case .
qed

lemma fireCellMap_count:
  "fireCellMap rows b (cellId cLat cLon) =
     (if cellCount rows b cLat cLon = 0 then None else Some (cellCount rows b cLat cLon))"
  unfolding fireCellMap_def by (simp add: fireCellMap_fold)

lemma zeroFireCells_empty_cell:
  assumes "(cLat, cLon) \<in> set (zeroFireCells rows b)"
  shows "cellCount rows b cLat cLon = 0"
proof -
  from assms have "fireCellMap rows b (cellId cLat cLon) = None"
    by (auto simp: zeroFireCells_def Let_def split: if_splits)
  then show ?thesis by (simp add: fireCellMap_count split: if_splits)
qed


subsection \<open>What one candidate looks like\<close>




lemma never_candidate_row:
  assumes cand: "never_candidate rnd c cells st = Inr (row, key)"
    and rnd: "unit_draws rnd"
  shows "\<exists>cLat cLon lat lon.
           (cLat, cLon) \<in> set cells
           \<and> latToCell (bounding st) lat = cLat \<and> lonToCell (bounding st) lon = cLon
           \<and> LATITUDE row = clamp lat (latMin (bounding st)) (latMax (bounding st))
           \<and> LONGITUDE row = clamp lon (lonMin (bounding st)) (lonMax (bounding st))"
proof -
  let ?idx = "\<lfloor>rnd c * real (length cells)\<rfloor>"
  have inr: "\<not> (?idx < 0 \<or> int (length cells) \<le> ?idx)"
    using cand by (auto simp: never_candidate_def Let_def split: if_splits)
  let ?cLat = "fst (cells ! nat ?idx)" and ?cLon = "snd (cells ! nat ?idx)"
  let ?lat = "randomInRange (rnd (c + 1)) (latMin (bounding st) + of_int ?cLat * LAT_CELL_SIZE)
                (latMin (bounding st) + of_int ?cLat * LAT_CELL_SIZE + LAT_CELL_SIZE)"
  let ?lon = "randomInRange (rnd (c + 2)) (lonMin (bounding st) + of_int ?cLon * LON_CELL_SIZE)
                (lonMin (bounding st) + of_int ?cLon * LON_CELL_SIZE + LON_CELL_SIZE)"
  have "cells ! nat ?idx \<in> set cells" using inr by (intro nth_mem) linarith
  then have mem: "(?cLat, ?cLon) \<in> set cells" by simp
  have r1: "0 \<le> rnd (c + 1)" "rnd (c + 1) < 1" and r2: "0 \<le> rnd (c + 2)" "rnd (c + 2) < 1"
    using rnd by (simp_all add: unit_draws_def)
  have "?lat - latMin (bounding st) = of_int ?cLat + rnd (c + 1)"
    by (simp add: randomInRange_def LAT_CELL_SIZE_def)
  then have lat: "latToCell (bounding st) ?lat = ?cLat"
    using r1 unfolding latToCell_def LAT_CELL_SIZE_def
    by (simp only: div_by_1) (simp add: floor_unique)
  have "?lon - lonMin (bounding st) = of_int ?cLon + rnd (c + 2)"
    by (simp add: randomInRange_def LON_CELL_SIZE_def)
  then have lon: "lonToCell (bounding st) ?lon = ?cLon"
    using r2 unfolding lonToCell_def LON_CELL_SIZE_def
    by (simp only: div_by_1) (simp add: floor_unique)
  have "LATITUDE row = clamp ?lat (latMin (bounding st)) (latMax (bounding st))"
    "LONGITUDE row = clamp ?lon (lonMin (bounding st)) (lonMax (bounding st))"
    using cand inr by (auto simp: never_candidate_def Let_def)
  with mem lat lon show ?thesis by blast
qed


subsection \<open>The generators as a whole\<close>

lemma createLocalNegativeSamples_grown:
  assumes "createLocalNegativeSamples rnd c n st = Inr (negs, c', st')"
  shows "grown st negs st'"
    and "\<forall>row \<in> set negs. \<exists>k s. posData s = posData st \<and> bounding s = bounding st \<and>
           local_candidate rnd k s = Inr (row, rowKey row)"
  using local_loop_grown [of rnd n "n * 5" "[]" 0 c st negs c' st'] assms
  by (auto simp: createLocalNegativeSamples_def)

lemma createGlobalNegativeSamples_grown:
  assumes "createGlobalNegativeSamples rnd c n st = (negs, c', st')"
  shows "grown st negs st'"
    and "\<forall>row \<in> set negs. \<exists>k s. posData s = posData st \<and> bounding s = bounding st \<and>
           global_candidate rnd k s = (row, rowKey row)"
  using global_loop_grown [of rnd n "n * 10" "[]" 0 c st negs c' st'] assms
  by (auto simp: createGlobalNegativeSamples_def)

lemma createNeverFireNegatives_cases:
  assumes "createNeverFireNegatives rnd c st n = Inr (negs, c', st', msgs)"
  shows "(zeroFireCells (posData st) (bounding st) = [] \<and> negs = [] \<and> c' = c \<and> st' = st
            \<and> msgs = [''No truly never-fire cells found. Skipping this step.''])
         \<or> (zeroFireCells (posData st) (bounding st) \<noteq> []
            \<and> never_loop rnd (zeroFireCells (posData st) (bounding st)) n (n * 10) [] 0 c st
                = Inr (negs, c', st'))"
  using assms
  by (auto simp: createNeverFireNegatives_def Let_def split: if_splits sum.splits)

lemma createNeverFireNegatives_grown:
  assumes "createNeverFireNegatives rnd c st n = Inr (negs, c', st', msgs)"
  shows "grown st negs st'"
    and "\<forall>row \<in> set negs. \<exists>k s. posData s = posData st \<and> bounding s = bounding st \<and>
           never_candidate rnd k (zeroFireCells (posData st) (bounding st)) s
             = Inr (row, rowKey row)"
proof -
  let ?cells = "zeroFireCells (posData st) (bounding st)"
  from createNeverFireNegatives_cases [OF assms]
  consider (none) "negs = []" "st' = st"
    | (some) "never_loop rnd ?cells n (n * 10) [] 0 c st = Inr (negs, c', st')"
    by blast
  then have "grown st negs st' \<and>
     (\<forall>row \<in> set negs. \<exists>k s. posData s = posData st \<and> bounding s = bounding st \<and>
           never_candidate rnd k ?cells s = Inr (row, rowKey row))"
  proof cases
    case none
    then show ?thesis by (simp add: grown_nil)
  next
    case some
    from never_loop_grown [OF some] show ?thesis by auto
  qed
  then show "grown st negs st'"
    and "\<forall>row \<in> set negs. \<exists>k s. posData s = posData st \<and> bounding s = bounding st \<and>
           never_candidate rnd k ?cells s = Inr (row, rowKey row)"
    by blast+
qed

lemma createLocalNegativeSamples_total:
  assumes "unit_draws rnd" and "posData st \<noteq> []"
  shows "\<exists>negs c' st'. createLocalNegativeSamples rnd c n st = Inr (negs, c', st')"
  using local_loop_total [OF assms, of n "n * 5" "[]" 0 c]
  by (auto simp: createLocalNegativeSamples_def)

lemma createNeverFireNegatives_total:
  assumes "unit_draws rnd"
  shows "\<exists>negs c' st' msgs. createNeverFireNegatives rnd c st n = Inr (negs, c', st', msgs)"
proof (cases "zeroFireCells (posData st) (bounding st) = []")
  case True
  then show ?thesis by (simp add: createNeverFireNegatives_def)
next
  case False
  from never_loop_total [OF assms False, of n "n * 10" "[]" 0 c st]
  obtain negs c' st' where
    "never_loop rnd (zeroFireCells (posData st) (bounding st)) n (n * 10) [] 0 c st
       = Inr (negs, c', st')"
    by auto
  with False show ?thesis by (simp add: createNeverFireNegatives_def Let_def)
qed



subsection \<open>The run, step by step\<close>


lemma negativeCounts_parts:
  "fst (negativeCounts n) = \<lfloor>of_int n * (0.4 :: real)\<rfloor>"
  "fst (snd (negativeCounts n)) = \<lfloor>of_int n * (0.3 :: real)\<rfloor>"
  "snd (snd (negativeCounts n)) = n - \<lfloor>of_int n * (0.4 :: real)\<rfloor> - \<lfloor>of_int n * (0.3 :: real)\<rfloor>"
  by (simp_all add: negativeCounts_def Let_def)

lemma runTraining_steps:
  assumes rnd: "unit_draws rnd" and ne: "positiveData \<noteq> []"
  shows "\<exists>b localN c1 st1 globalN c2 st2 neverN c3 st3 msgs r.
      latMin b \<le> latMax b \<and> lonMin b \<le> lonMax b \<and> yearMin b \<le> yearMax b
    \<and> finite_bounds (findMinMax (map LATITUDE positiveData)) = Some (latMin b, latMax b)
    \<and> finite_bounds (findMinMax (map LONGITUDE positiveData)) = Some (lonMin b, lonMax b)
    \<and> createLocalNegativeSamples rnd 0 (fst (negativeCounts (int (length positiveData))))
         \<lparr>posData = positiveData, bounding = b, fireSet = buildFireSet positiveData\<rparr>
         = Inr (localN, c1, st1)
    \<and> createGlobalNegativeSamples rnd c1 (fst (snd (negativeCounts (int (length positiveData))))) st1
         = (globalN, c2, st2)
    \<and> createNeverFireNegatives rnd c2 st2 (snd (snd (negativeCounts (int (length positiveData)))))
         = Inr (neverN, c3, st3, msgs)
    \<and> runTraining rnd positiveData = Inr r
    \<and> localNegCount r = fst (negativeCounts (int (length positiveData)))
    \<and> globalNegCount r = fst (snd (negativeCounts (int (length positiveData))))
    \<and> neverFireNegCount r = snd (snd (negativeCounts (int (length positiveData))))
    \<and> localNegatives r = localN \<and> globalNegatives r = globalN
    \<and> neverFireNegatives r = neverN
    \<and> negativeData r = localN @ globalN @ neverN
    \<and> fullData r = positiveData @ localN @ globalN @ neverN
    \<and> XAll r = map (encodeRow b) (fullData r)
    \<and> final_store r = st3 \<and> neverFireLog r = msgs"
proof -
  let ?n = "int (length positiveData)"
  from ne have ne3: "map LATITUDE positiveData \<noteq> []" "map LONGITUDE positiveData \<noteq> []"
    "map (\<lambda>d. real_of_int (FIRE_YEAR d)) positiveData \<noteq> []" by simp_all
  from findMinMax_finite [OF ne3(1)] obtain la lb where
    lat: "finite_bounds (findMinMax (map LATITUDE positiveData)) = Some (la, lb)" "la \<le> lb"
    by blast
  from findMinMax_finite [OF ne3(2)] obtain oa ob where
    lon: "finite_bounds (findMinMax (map LONGITUDE positiveData)) = Some (oa, ob)" "oa \<le> ob"
    by blast
  from findMinMax_finite [OF ne3(3)] obtain ya yb where
    yr: "finite_bounds (findMinMax (map (\<lambda>d. real_of_int (FIRE_YEAR d)) positiveData)) = Some (ya, yb)"
      "ya \<le> yb"
    by blast
  define b where "b = \<lparr>latMin = la, latMax = lb, lonMin = oa, lonMax = ob, yearMin = ya, yearMax = yb\<rparr>"
  define st0 where "st0 = \<lparr>posData = positiveData, bounding = b, fireSet = buildFireSet positiveData\<rparr>"
  have "posData st0 \<noteq> []" using ne by (simp add: st0_def)
  from createLocalNegativeSamples_total [OF rnd this, of 0 "fst (negativeCounts ?n)"]
  obtain localN c1 st1 where
    l: "createLocalNegativeSamples rnd 0 (fst (negativeCounts ?n)) st0 = Inr (localN, c1, st1)"
    by blast
  obtain globalN c2 st2 where
    g: "createGlobalNegativeSamples rnd c1 (fst (snd (negativeCounts ?n))) st1 = (globalN, c2, st2)"
    by (cases "createGlobalNegativeSamples rnd c1 (fst (snd (negativeCounts ?n))) st1")
  from createNeverFireNegatives_total [OF rnd, of c2 st2 "snd (snd (negativeCounts ?n))"]
  obtain neverN c3 st3 msgs where
    n: "createNeverFireNegatives rnd c2 st2 (snd (snd (negativeCounts ?n)))
          = Inr (neverN, c3, st3, msgs)"
    by blast
  define r where "r =
         \<lparr>localNegCount = fst (negativeCounts ?n),
             globalNegCount = fst (snd (negativeCounts ?n)),
             neverFireNegCount = snd (snd (negativeCounts ?n)),
             localNegatives = localN,
             globalNegatives = globalN,
             neverFireNegatives = neverN,
             negativeData = localN @ globalN @ neverN,
             fullData = positiveData @ localN @ globalN @ neverN,
             XAll = map (encodeRow b) (positiveData @ localN @ globalN @ neverN),
             yClassAll = map (\<lambda>row. if FIRE_SIZE row > 0 then 1 else 0)
                           (positiveData @ localN @ globalN @ neverN),
             ySizeAll = map FIRE_SIZE (positiveData @ localN @ globalN @ neverN),
             final_store = st3,
             neverFireLog = msgs\<rparr>"
  have run: "runTraining rnd positiveData = Inr r"
    unfolding runTraining_def Let_def r_def
    using ne lat(1) lon(1) yr(1) l g n
    by (simp add: b_def [symmetric] st0_def [symmetric])
  have bs: "latMin b \<le> latMax b" "lonMin b \<le> lonMax b" "yearMin b \<le> yearMax b"
    using lat(2) lon(2) yr(2) by (simp_all add: b_def)
  have fb: "finite_bounds (findMinMax (map LATITUDE positiveData)) = Some (latMin b, latMax b)"
    "finite_bounds (findMinMax (map LONGITUDE positiveData)) = Some (lonMin b, lonMax b)"
    using lat(1) lon(1) by (simp_all add: b_def)
  have fields: "localNegCount r = fst (negativeCounts ?n)"
    "globalNegCount r = fst (snd (negativeCounts ?n))"
    "neverFireNegCount r = snd (snd (negativeCounts ?n))"
    "localNegatives r = localN" "globalNegatives r = globalN" "neverFireNegatives r = neverN"
    "negativeData r = localN @ globalN @ neverN"
    "fullData r = positiveData @ localN @ globalN @ neverN"
    "XAll r = map (encodeRow b) (fullData r)"
    "final_store r = st3" "neverFireLog r = msgs"
    by (simp_all add: r_def)
  show ?thesis
    apply (rule exI [of _ b], rule exI [of _ localN], rule exI [of _ c1], rule exI [of _ st1])
    apply (rule exI [of _ globalN], rule exI [of _ c2], rule exI [of _ st2])
    apply (rule exI [of _ neverN], rule exI [of _ c3], rule exI [of _ st3])
    apply (rule exI [of _ msgs], rule exI [of _ r])
    using bs fb l [unfolded st0_def] g n run fields apply (intro conjI)
    apply assumption+
    done
qed

lemma negativeCounts_nonneg:
  assumes "0 \<le> n"
  shows "0 \<le> fst (negativeCounts n)" and "0 \<le> fst (snd (negativeCounts n))"
    and "0 \<le> snd (snd (negativeCounts n))"
proof -
  have x: "0 \<le> of_int n * (0.4 :: real)" "0 \<le> of_int n * (0.3 :: real)"
    using assms by simp_all
  then show "0 \<le> fst (negativeCounts n)" "0 \<le> fst (snd (negativeCounts n))"
    by (simp_all add: negativeCounts_parts)
  have "of_int \<lfloor>of_int n * (0.4 :: real)\<rfloor> \<le> of_int n * (0.4 :: real)"
    "of_int \<lfloor>of_int n * (0.3 :: real)\<rfloor> \<le> of_int n * (0.3 :: real)"
    by (rule of_int_floor_le)+
  then have "real_of_int (\<lfloor>of_int n * (0.4 :: real)\<rfloor> + \<lfloor>of_int n * (0.3 :: real)\<rfloor>)
               \<le> of_int n"
    using assms by simp
  then have "\<lfloor>of_int n * (0.4 :: real)\<rfloor> + \<lfloor>of_int n * (0.3 :: real)\<rfloor> \<le> n"
    by (simp only: of_int_le_iff)
  then show "0 \<le> snd (snd (negativeCounts n))"
    by (simp add: negativeCounts_parts)
qed


lemma nth_not_in_take:
  assumes "distinct xs" and "k < length xs"
  shows "xs ! k \<notin> set (take k xs)"
proof
  assume "xs ! k \<in> set (take k xs)"
  then obtain i where i: "i < length (take k xs)" "take k xs ! i = xs ! k"
    by (auto simp: in_set_conv_nth)
  then have "i < k" "xs ! i = xs ! k" by simp_all
  with assms show False by (simp add: nth_eq_iff_index_eq)
qed

lemma runTraining_grown:
  assumes "unit_draws rnd" and "positiveData \<noteq> []"
  shows "\<exists>r. runTraining rnd positiveData = Inr r
     \<and> negativeData r = localNegatives r @ globalNegatives r @ neverFireNegatives r
     \<and> fullData r = positiveData @ negativeData r
     \<and> posData (final_store r) = positiveData
     \<and> fireSet (final_store r) = buildFireSet positiveData \<union> rowKey ` set (negativeData r)
     \<and> distinct (map rowKey (negativeData r))
     \<and> rowKey ` set (negativeData r) \<inter> rowKey ` set positiveData = {}"
proof -
  from runTraining_steps [OF assms]
  obtain b localN c1 st1 globalN c2 st2 neverN c3 st3 msgs r where
    l: "createLocalNegativeSamples rnd 0 (fst (negativeCounts (int (length positiveData))))
         \<lparr>posData = positiveData, bounding = b, fireSet = buildFireSet positiveData\<rparr>
         = Inr (localN, c1, st1)"
    and g: "createGlobalNegativeSamples rnd c1
         (fst (snd (negativeCounts (int (length positiveData))))) st1 = (globalN, c2, st2)"
    and n: "createNeverFireNegatives rnd c2 st2
         (snd (snd (negativeCounts (int (length positiveData))))) = Inr (neverN, c3, st3, msgs)"
    and run: "runTraining rnd positiveData = Inr r"
    and r: "localNegatives r = localN" "globalNegatives r = globalN"
      "neverFireNegatives r = neverN" "negativeData r = localN @ globalN @ neverN"
      "fullData r = positiveData @ localN @ globalN @ neverN" "final_store r = st3"
    by blast
  let ?st0 = "\<lparr>posData = positiveData, bounding = b, fireSet = buildFireSet positiveData\<rparr>"
  have "grown ?st0 (localN @ globalN @ neverN) st3"
    using createLocalNegativeSamples_grown(1) [OF l] createGlobalNegativeSamples_grown(1) [OF g]
      createNeverFireNegatives_grown(1) [OF n]
    by (blast intro: grown_trans)
  then have "posData st3 = positiveData"
    "fireSet st3 = buildFireSet positiveData \<union> rowKey ` set (localN @ globalN @ neverN)"
    "distinct (map rowKey (localN @ globalN @ neverN))"
    "rowKey ` set (localN @ globalN @ neverN) \<inter> rowKey ` set positiveData = {}"
    by (simp_all add: grown_def buildFireSet_keys)
  with run r show ?thesis by simp
qed


section \<open>Lemmas on the date encoding\<close>

subsection \<open>The two scripts hold the same code\<close>

lemma predict_encodeCyclical_eq: "predict_encodeCyclical = encodeCyclical"
  by (intro ext) (simp add: predict_encodeCyclical_def encodeCyclical_def)

lemma predict_dayOfYear_eq: "predict_dayOfYear = dayOfYear"
  by (intro ext) (simp add: predict_dayOfYear_def dayOfYear_def)

lemma predict_parseDateToFeatures_eq:
  "predict_parseDateToFeatures rt s = parseDateToFeatures rt initial_globals s"
  by (simp add: predict_parseDateToFeatures_def parseDateToFeatures_def initial_globals_def
        predict_globalMinYear_def predict_globalMaxYear_def
        predict_encodeCyclical_eq predict_dayOfYear_eq)



subsection \<open>Dates of the examples\<close>

lemmas calendar_defs =
  digit_value_def MakeDay_def DayFromYear_def DaysBeforeMonth_def InLeapYear_def
  DaysInMonth_def msPerDay_def YearFromTime_def YearFromDay_def MonthFromTime_def Day_def
  Let_def

lemma parse_2025_07_19: "Date_parse_iso ''2025-07-19'' = Some 1752883200000"
  by (simp add: calendar_defs)

lemma year_2025_07_19: "YearFromTime 1752883200000 = 2025"
  by (simp add: calendar_defs)

lemma month_2025_07_19: "MonthFromTime 1752883200000 = 6"
  by (simp add: calendar_defs)









declare Date_parse_iso.simps [simp del]




lemma date_2025_07_19:
  "newDate (host offset) (Some ''2025-07-19'') = Some 1752883200000"
  "getUTCFullYear (Some 1752883200000) = Num 2025"
  "getUTCMonth (Some 1752883200000) = Num 6"
  by (simp_all add: newDate_def host_def getUTCFullYear_def getUTCMonth_def parse_2025_07_19
        year_2025_07_19 month_2025_07_19)

lemma start_of_2025:
  "newDateLocal (host offset) (Num 2025) 0 1 = TimeClip (1735689600000 - offset)"
  by (simp add: newDateLocal_def host_def calendar_defs)

lemma dayOfYear_2025_07_19_utc:
  "dayOfYear utc (Some 1752883200000) (Num 2025) = Num 200"
  by (simp add: dayOfYear_def utc_def start_of_2025 TimeClip_def valueOf_def jsub_def
        Math_max_def Math_min_def)

lemma dayOfYear_2025_07_19_utc_minus_5:
  "dayOfYear utc_minus_5 (Some 1752883200000) (Num 2025) = Num 199"
  by (simp add: dayOfYear_def utc_minus_5_def start_of_2025 TimeClip_def valueOf_def jsub_def
        Math_max_def Math_min_def)

lemma encode_finite:
  "m \<noteq> 0 \<Longrightarrow> encodeCyclical (Num v) (Num m)
      = (Num (sin (2 * pi * v / m)), Num (cos (2 * pi * v / m)))"
  by (simp add: encodeCyclical_def Math_PI_def)

lemma cos_199_200: "cos (2 * pi * 199 / 366) < cos (2 * pi * 200 / 366)"
proof -
  have "cos (2 * pi - 2 * pi * 200 / 366) > cos (2 * pi - 2 * pi * 199 / 366)"
    by (rule cos_monotone_0_pi) (simp_all add: field_simps)
  then show ?thesis by (simp only: cos_2pi_minus)
qed

text \<open>
  The encoding of 2025-07-19 under the bounds 1990 and 2030 on a host on UTC: the
  scaled year 7/8 = 0.875, the month 7 and the day 200.
\<close>

lemma encoding_2025_07_19_utc:
  "parseDateToFeatures utc initial_globals (Some ''2025-07-19'')
     = [Num (7 / 8), Num (sin (2 * pi * 7 / 12)), Num (cos (2 * pi * 7 / 12)),
        Num (sin (2 * pi * 200 / 366)), Num (cos (2 * pi * 200 / 366))]"
  by (simp add: parseDateToFeatures_def initial_globals_def utc_def [symmetric]
        date_2025_07_19(1) [of 0, folded utc_def] date_2025_07_19(2,3) dayOfYear_2025_07_19_utc encode_finite jsub_def)

subsection \<open>The targets\<close>

lemma targetColumns_length: "length targetColumns = 16"
  by (simp add: targetColumns_def)


section \<open>The generators at work on the two fires\<close>

text \<open>
  With every draw equal to 1/4 the local generator moves the first fire by -0.25 degrees
  and -8 days, and the global and the never-occurred generator both draw the point
  (30.25, -80.75) on day 92 of 2020.
\<close>

lemma unit_draws_quarter: "unit_draws quarter_draws"
  by (simp add: unit_draws_def quarter_draws_def)

lemma show_nat_examples:
  "show_nat 92 = ''92''" "show_nat 100 = ''100''" "show_nat 150 = ''150''"
  "show_nat 2020 = ''2020''" "show_nat 2021 = ''2021''"
  "show_nat 300000 = ''300000''" "show_nat 310000 = ''310000''" "show_nat 302500 = ''302500''"
  "show_nat 800000 = ''800000''" "show_nat 810000 = ''810000''" "show_nat 802500 = ''802500''"
  "show_nat 807500 = ''807500''"
  by (simp_all add: show_nat.simps digit_def)

lemma toFixed4_examples:
  "toFixed4 30 = ''30.0000''" "toFixed4 31 = ''31.0000''" "toFixed4 (121 / 4) = ''30.2500''"
  "toFixed4 (- 80) = ''-80.0000''" "toFixed4 (- 81) = ''-81.0000''"
  "toFixed4 (- (321 / 4)) = ''-80.2500''" "toFixed4 (- (323 / 4)) = ''-80.7500''"
  by (simp_all add: toFixed4_def Let_def show_nat_examples)

lemma eventKey_examples:
  "eventKey 30 (- 80) 2020 100 = ''30.0000,-80.0000,2020,100''"
  "eventKey 31 (- 81) 2021 150 = ''31.0000,-81.0000,2021,150''"
  "eventKey 30 (- (321 / 4)) 2020 92 = ''30.0000,-80.2500,2020,92''"
  "eventKey (121 / 4) (- (323 / 4)) 2020 92 = ''30.2500,-80.7500,2020,92''"
  by (simp_all add: eventKey_def toFixed4_examples show_int_def show_nat_examples)

lemma two_fires_key_set:
  "buildFireSet two_fires = {''30.0000,-80.0000,2020,100'', ''31.0000,-81.0000,2021,150''}"
  by (auto simp: buildFireSet_keys two_fires_def rowKey_def eventKey_examples)

lemma two_fires_local_candidate:
  "local_candidate quarter_draws c (two_fires_store\<lparr>fireSet := S\<rparr>)
     = Inr (near_row, ''30.0000,-80.2500,2020,92'')"
  by (simp add: local_candidate_def two_fires_store_def two_fires_def two_fires_box_def
        quarter_draws_def clamp_def LAT_OFFSET_DEG_def LON_OFFSET_DEG_def DOY_OFFSET_def
        Let_def eventKey_examples near_row_def)

lemma two_fires_global_candidate:
  "global_candidate quarter_draws c (two_fires_store\<lparr>fireSet := S\<rparr>)
     = (far_row, ''30.2500,-80.7500,2020,92'')"
  by (simp add: global_candidate_def two_fires_store_def two_fires_box_def
        quarter_draws_def randomInRange_def Let_def eventKey_examples far_row_def)

lemma two_fires_cells: "zeroFireCells two_fires two_fires_box = [(0, 0)]"
proof -
  have ids: "cellId 0 0 = ''0,0''" "cellId 0 1 = ''0,1''" "cellId 1 0 = ''1,0''"
    by (simp_all add: cellId_def show_int_def show_nat.simps digit_def)
  have "fireCellMap two_fires two_fires_box = [''0,1'' \<mapsto> 1, ''1,0'' \<mapsto> 1]"
    by (simp add: fireCellMap_def countRow_def two_fires_def two_fires_box_def latToCell_def
          lonToCell_def LAT_CELL_SIZE_def LON_CELL_SIZE_def Let_def ids)
  then show ?thesis
    by (simp add: zeroFireCells_def two_fires_box_def LAT_CELL_SIZE_def LON_CELL_SIZE_def
          Let_def ids)
qed

lemma two_fires_never_candidate:
  "never_candidate quarter_draws c [(0, 0)] (two_fires_store\<lparr>fireSet := S\<rparr>)
     = Inr (far_row, ''30.2500,-80.7500,2020,92'')"
  by (simp add: never_candidate_def two_fires_store_def two_fires_box_def
        quarter_draws_def randomInRange_def clamp_def LAT_CELL_SIZE_def LON_CELL_SIZE_def
        Let_def eventKey_examples far_row_def)

lemma store_fireSet_same: "two_fires_store\<lparr>fireSet := fireSet two_fires_store\<rparr> = two_fires_store"
  by simp

lemma two_fires_local_run:
  "createLocalNegativeSamples quarter_draws 0 1 two_fires_store
     = Inr ([near_row], 4,
            two_fires_store\<lparr>fireSet := insert ''30.0000,-80.2500,2020,92'' (buildFireSet two_fires)\<rparr>)"
proof -
  have c: "local_candidate quarter_draws 0 two_fires_store
     = Inr (near_row, ''30.0000,-80.2500,2020,92'')"
    using two_fires_local_candidate [of 0 "fireSet two_fires_store"] by simp
  have fs: "fireSet two_fires_store = buildFireSet two_fires"
    by (simp add: two_fires_store_def)
  have new: "''30.0000,-80.2500,2020,92'' \<notin> buildFireSet two_fires"
    by (simp add: two_fires_key_set)
  have "local_loop quarter_draws 1 5 [near_row] 1 4
          (two_fires_store\<lparr>fireSet := insert ''30.0000,-80.2500,2020,92'' (buildFireSet two_fires)\<rparr>)
        = Inr ([near_row], 4,
            two_fires_store\<lparr>fireSet := insert ''30.0000,-80.2500,2020,92'' (buildFireSet two_fires)\<rparr>)"
    by (rule local_loop_idle) simp
  then show ?thesis
    unfolding createLocalNegativeSamples_def
    by (subst local_loop.simps) (simp add: c fs new)
qed

lemma two_fires_global_run:
  "createGlobalNegativeSamples quarter_draws 0 2 two_fires_store
     = ([far_row], 80,
        two_fires_store\<lparr>fireSet := insert ''30.2500,-80.7500,2020,92'' (buildFireSet two_fires)\<rparr>)"
proof -
  have c: "global_candidate quarter_draws 0 two_fires_store
     = (far_row, ''30.2500,-80.7500,2020,92'')"
    using two_fires_global_candidate [of 0 "fireSet two_fires_store"] by simp
  have fs: "fireSet two_fires_store = buildFireSet two_fires"
    by (simp add: two_fires_store_def)
  have new: "''30.2500,-80.7500,2020,92'' \<notin> buildFireSet two_fires"
    by (simp add: two_fires_key_set)
  show ?thesis
    by (simp add: createGlobalNegativeSamples_def global_loop.simps c fs new
          two_fires_global_candidate)
qed


lemma two_fires_never_run:
  "createNeverFireNegatives quarter_draws 0 two_fires_store 2
     = Inr ([far_row], 100,
            two_fires_store\<lparr>fireSet := insert ''30.2500,-80.7500,2020,92'' (buildFireSet two_fires)\<rparr>,
            [''Found 1 lat/lon cells that never had a fire. Sampling from them...''])"
proof -
  have cells: "zeroFireCells (posData two_fires_store) (bounding two_fires_store) = [(0, 0)]"
    by (simp add: two_fires_store_def two_fires_cells)
  have c: "never_candidate quarter_draws 0 [(0, 0)] two_fires_store
     = Inr (far_row, ''30.2500,-80.7500,2020,92'')"
    using two_fires_never_candidate [of 0 "fireSet two_fires_store"] by simp
  have fs: "fireSet two_fires_store = buildFireSet two_fires"
    by (simp add: two_fires_store_def)
  have new: "''30.2500,-80.7500,2020,92'' \<notin> buildFireSet two_fires"
    by (simp add: two_fires_key_set)
  have loop: "never_loop quarter_draws [(0, 0)] 2 20 [] 0 0 two_fires_store
     = Inr ([far_row], 100,
            two_fires_store\<lparr>fireSet := insert ''30.2500,-80.7500,2020,92'' (buildFireSet two_fires)\<rparr>)"
    by (simp add: never_loop.simps c fs new two_fires_never_candidate)
  show ?thesis
    by (simp add: createNeverFireNegatives_def cells loop show_nat.simps digit_def)
qed

lemma two_fires_bounds:
  "findMinMax (map LATITUDE two_fires) = (Num 30, Num 31)"
  "findMinMax (map LONGITUDE two_fires) = (Num (- 81), Num (- 80))"
  "findMinMax (map (\<lambda>d. real_of_int (FIRE_YEAR d)) two_fires) = (Num 2020, Num 2021)"
  by (simp_all add: findMinMax_def scanMinMax_def jgt_def two_fires_def)

text \<open>
  The run on the two fires, with every draw equal to 1/4.  The quotas are 0, 0 and 2;
  the never-occurred generator finds the one empty cell, accepts its first candidate
  and rejects the nineteen that follow, which are the same point.
\<close>

lemma two_fires_training:
  "runTraining quarter_draws two_fires =
     Inr \<lparr>localNegCount = 0, globalNegCount = 0, neverFireNegCount = 2,
          localNegatives = [], globalNegatives = [], neverFireNegatives = [far_row],
          negativeData = [far_row],
          fullData = two_fires @ [far_row],
          XAll = [[Num 0, Num 1, Num 0, Num (50 / 183)],
                  [Num 1, Num 0, Num 1, Num (25 / 61)],
                  [Num (1 / 4), Num (1 / 4), Num 0, Num (46 / 183)]],
          yClassAll = [1, 1, 0],
          ySizeAll = [5, 3, 0],
          final_store =
            two_fires_store\<lparr>fireSet := insert ''30.2500,-80.7500,2020,92'' (buildFireSet two_fires)\<rparr>,
          neverFireLog = [''Found 1 lat/lon cells that never had a fire. Sampling from them...'']\<rparr>"
proof -
  have counts: "negativeCounts 2 = (0, 0, 2)"
    by (simp add: negativeCounts_def)
  have st: "\<lparr>posData = two_fires,
             bounding = \<lparr>latMin = 30, latMax = 31, lonMin = - 81, lonMax = - 80,
                          yearMin = 2020, yearMax = 2021\<rparr>,
             fireSet = buildFireSet two_fires\<rparr> = two_fires_store"
    by (simp add: two_fires_store_def two_fires_box_def)
  have l: "createLocalNegativeSamples quarter_draws 0 0 two_fires_store = Inr ([], 0, two_fires_store)"
    by (simp add: createLocalNegativeSamples_def local_loop_idle)
  have g: "createGlobalNegativeSamples quarter_draws 0 0 two_fires_store = ([], 0, two_fires_store)"
    by (simp add: createGlobalNegativeSamples_def global_loop_idle)
  have len: "length two_fires = 2" "two_fires \<noteq> []"
    by (simp_all add: two_fires_def)
  have x: "map (encodeRow \<lparr>latMin = 30, latMax = 31, lonMin = - 81, lonMax = - 80,
                            yearMin = 2020, yearMax = 2021\<rparr>) two_fires
      = [[Num 0, Num 1, Num 0, Num (50 / 183)], [Num 1, Num 0, Num 1, Num (25 / 61)]]"
    "encodeRow \<lparr>latMin = 30, latMax = 31, lonMin = - 81, lonMax = - 80,
                 yearMin = 2020, yearMax = 2021\<rparr> far_row
      = [Num (1 / 4), Num (1 / 4), Num 0, Num (46 / 183)]"
    by (simp_all add: encodeRow_def minMaxScale_finite two_fires_def far_row_def)
  have y: "map (\<lambda>row. if 0 < FIRE_SIZE row then 1 else 0) two_fires = [Suc 0, Suc 0]"
    "map FIRE_SIZE two_fires = [5, 3]" "FIRE_SIZE far_row = 0"
    by (simp_all add: two_fires_def far_row_def)
  show ?thesis
    unfolding runTraining_def Let_def
    by (simp add: len two_fires_bounds counts st l g two_fires_never_run x y)
qed


section \<open>The claims\<close>

subsection \<open>C1: the date encoding at training and at inference time\<close>





subsection \<open>C2: event keys in the final data set\<close>

text \<open>
  C2, as the code has it.  In a run on a non-empty data set with draws in \<open>[0, 1)\<close>, the
  final data set is the positive rows followed by the generated negatives;  the key of
  a negative differs from the key of every other row, positive or negative (so two rows
  of the final data set share a key only if both are positive rows, and none do when
  the positive rows have different keys);  and the key of the \<open>k\<close>-th negative is absent
  from the key set as it stands when the candidate is tested, which holds the keys of
  the positive rows and of the \<open>k\<close> negatives accepted before, and present in the set
  once the row is accepted.
\<close>

theorem negatives_never_share_a_key:
  assumes "unit_draws rnd" and "positiveData \<noteq> []"
  shows "\<exists>r. runTraining rnd positiveData = Inr r
     \<and> fullData r = positiveData @ negativeData r
     \<and> (\<forall>i j. i < j \<and> j < length (fullData r) \<and> length positiveData \<le> j
            \<longrightarrow> rowKey (fullData r ! i) \<noteq> rowKey (fullData r ! j))
     \<and> (distinct (map rowKey positiveData) \<longrightarrow> distinct (map rowKey (fullData r)))
     \<and> (\<forall>k < length (negativeData r).
            rowKey (negativeData r ! k)
              \<notin> buildFireSet positiveData \<union> rowKey ` set (take k (negativeData r))
          \<and> rowKey (negativeData r ! k)
              \<in> buildFireSet positiveData \<union> rowKey ` set (take (Suc k) (negativeData r)))
     \<and> fireSet (final_store r) = buildFireSet positiveData \<union> rowKey ` set (negativeData r)"
proof -
  from runTraining_grown [OF assms] obtain r where
    run: "runTraining rnd positiveData = Inr r"
    and full: "fullData r = positiveData @ negativeData r"
    and fs: "fireSet (final_store r) = buildFireSet positiveData \<union> rowKey ` set (negativeData r)"
    and d: "distinct (map rowKey (negativeData r))"
    and i: "rowKey ` set (negativeData r) \<inter> rowKey ` set positiveData = {}"
    by blast
  let ?neg = "negativeData r" and ?n = "length positiveData"
  have pair: "rowKey (fullData r ! i) \<noteq> rowKey (fullData r ! j)"
    if "i < j" "j < length (fullData r)" "?n \<le> j" for i j
  proof -
    have j: "fullData r ! j = ?neg ! (j - ?n)" "j - ?n < length ?neg"
      using that full by (simp_all add: nth_append)
    show ?thesis
    proof (cases "i < ?n")
      case True
      then have "fullData r ! i \<in> set positiveData" by (simp add: full nth_append)
      moreover have "?neg ! (j - ?n) \<in> set ?neg" using j(2) by simp
      ultimately show ?thesis using i j(1) by auto
    next
      case False
      then have "fullData r ! i = ?neg ! (i - ?n)" "i - ?n < j - ?n"
        using that by (simp_all add: full nth_append)
      with d j show ?thesis
        using nth_eq_iff_index_eq [of "map rowKey ?neg" "i - ?n" "j - ?n"] by simp
    qed
  qed
  have all: "distinct (map rowKey (fullData r))" if "distinct (map rowKey positiveData)"
    using that d i by (auto simp: full)
  have step: "rowKey (?neg ! k) \<notin> buildFireSet positiveData \<union> rowKey ` set (take k ?neg)
      \<and> rowKey (?neg ! k) \<in> buildFireSet positiveData \<union> rowKey ` set (take (Suc k) ?neg)"
    if "k < length ?neg" for k
  proof -
    have "?neg ! k \<in> set ?neg" using that by simp
    then have "rowKey (?neg ! k) \<notin> buildFireSet positiveData"
      using i by (auto simp: buildFireSet_keys)
    moreover have "map rowKey ?neg ! k \<notin> set (take k (map rowKey ?neg))"
      using d that by (intro nth_not_in_take) simp_all
    then have "rowKey (?neg ! k) \<notin> rowKey ` set (take k ?neg)"
      using that by (simp add: take_map)
    moreover have "rowKey (?neg ! k) \<in> rowKey ` set (take (Suc k) ?neg)"
      using that by (simp add: take_Suc_conv_app_nth)
    ultimately show ?thesis by blast
  qed
  from run full pair all step fs show ?thesis by blast
qed

text \<open>
  The run on the two fires: its one negative has a key of its own, absent from the keys
  of the two fires and present in the final key set.
\<close>

theorem negatives_never_share_a_key_witness:
  "unit_draws quarter_draws \<and> two_fires \<noteq> []
   \<and> (\<exists>r. runTraining quarter_draws two_fires = Inr r
        \<and> negativeData r = [far_row]
        \<and> fullData r = two_fires @ [far_row]
        \<and> distinct (map rowKey (fullData r))
        \<and> rowKey far_row \<notin> buildFireSet two_fires
        \<and> rowKey far_row \<in> fireSet (final_store r))"
proof -
  have ne: "two_fires \<noteq> []" by (simp add: two_fires_def)
  have d: "distinct (map rowKey two_fires)"
    by (simp add: two_fires_def rowKey_def eventKey_examples)
  from negatives_never_share_a_key [OF unit_draws_quarter ne]
  obtain r where run: "runTraining quarter_draws two_fires = Inr r"
    and full: "fullData r = two_fires @ negativeData r"
    and all: "distinct (map rowKey two_fires) \<longrightarrow> distinct (map rowKey (fullData r))"
    and step: "\<forall>k < length (negativeData r).
            rowKey (negativeData r ! k)
              \<notin> buildFireSet two_fires \<union> rowKey ` set (take k (negativeData r))
          \<and> rowKey (negativeData r ! k)
              \<in> buildFireSet two_fires \<union> rowKey ` set (take (Suc k) (negativeData r))"
    and fs: "fireSet (final_store r) = buildFireSet two_fires \<union> rowKey ` set (negativeData r)"
    by blast
  have neg: "negativeData r = [far_row]"
    using run by (auto simp: two_fires_training)
  have "0 < length (negativeData r)" by (simp add: neg)
  with step have "rowKey (negativeData r ! 0)
      \<notin> buildFireSet two_fires \<union> rowKey ` set (take 0 (negativeData r))"
    by blast
  then have "rowKey far_row \<notin> buildFireSet two_fires" by (simp add: neg)
  moreover have "rowKey far_row \<in> fireSet (final_store r)" by (simp add: fs neg)
  moreover have "distinct (map rowKey (fullData r))" using all d by blast
  ultimately show ?thesis using unit_draws_quarter ne run neg full by auto
qed

text \<open>
  C2 as stated fails on a data set that records one fire twice: the run keeps both
  positive rows, and they share their key.
\<close>

theorem twin_fires_share_a_key:
  "\<not> isl (runTraining quarter_draws twin_fires)
   \<and> \<not> distinct (map rowKey (fullData (projr (runTraining quarter_draws twin_fires))))"
proof -
  have ne: "twin_fires \<noteq> []" by (simp add: twin_fires_def one_fire_def)
  from runTraining_grown [OF unit_draws_quarter ne] obtain r where
    run: "runTraining quarter_draws twin_fires = Inr r"
    and full: "fullData r = twin_fires @ negativeData r"
    by blast
  have "\<not> distinct (map rowKey (fullData r))"
    by (simp add: full twin_fires_def one_fire_def)
  with run show ?thesis by simp
qed


subsection \<open>C3: min-max scaling\<close>

text \<open>
  C3.  A finite raw value between the finite bounds \<open>mn\<close> and \<open>mx\<close> is scaled, by the
  training copy and by the inference copy of \<open>minMaxScale\<close>, to a finite value in
  \<open>[0, 1]\<close>.  Whatever the value to scale (finite, \<open>NaN\<close> or infinite), when the maximum
  \<open>===\<close> the minimum both copies return the finite number 0, which is neither \<open>NaN\<close>
  nor an infinity.
\<close>

theorem minMaxScale_range_and_degenerate:
  "(mn \<le> v \<and> v \<le> mx \<longrightarrow>
      (\<exists>r. minMaxScale (Num v) (Num mn) (Num mx) = Num r \<and>
           predictFire_minMaxScale (Num v) (Num mn) (Num mx) = Num r \<and> 0 \<le> r \<and> r \<le> 1))
   \<and> (jeq bmax bmin \<longrightarrow>
      minMaxScale val bmin bmax = Num 0 \<and> predictFire_minMaxScale val bmin bmax = Num 0)"
proof (intro conjI impI)
  assume b: "mn \<le> v \<and> v \<le> mx"
  let ?r = "if mx = mn then 0 else (v - mn) / (mx - mn)"
  have "0 \<le> ?r" "?r \<le> 1"
    using b unit_quotient [of mn v mx] by blast+
  then show "\<exists>r. minMaxScale (Num v) (Num mn) (Num mx) = Num r \<and>
      predictFire_minMaxScale (Num v) (Num mn) (Num mx) = Num r \<and> 0 \<le> r \<and> r \<le> 1"
    using minMaxScale_finite [of v mn mx] predictFire_minMaxScale_finite [of v mn mx]
    by blast
next
  assume "jeq bmax bmin"
  then show "minMaxScale val bmin bmax = Num 0"
    by (simp add: minMaxScale_def)
next
  assume "jeq bmax bmin"
  then show "predictFire_minMaxScale val bmin bmax = Num 0"
    by (simp add: predictFire_minMaxScale_def)
qed

text \<open>
  The theorem at latitude 29.65 inside the inference bounds \<open>[17.9, 70.3]\<close>, and at any
  value, here \<open>NaN\<close>, when both bounds are 2020.
\<close>

theorem minMaxScale_range_and_degenerate_witness:
  "(17.9::real) \<le> 29.65 \<and> (29.65::real) \<le> 70.3
   \<and> (\<exists>r. minMaxScale (Num 29.65) (Num 17.9) (Num 70.3) = Num r \<and>
           predictFire_minMaxScale (Num 29.65) (Num 17.9) (Num 70.3) = Num r \<and> 0 \<le> r \<and> r \<le> 1)
   \<and> jeq (Num 2020) (Num 2020)
   \<and> minMaxScale NaN (Num 2020) (Num 2020) = Num 0
   \<and> predictFire_minMaxScale NaN (Num 2020) (Num 2020) = Num 0"
proof -
  have h1: "(17.9::real) \<le> 29.65 \<and> (29.65::real) \<le> 70.3" by simp
  have h2: "jeq (Num 2020) (Num 2020)" by (simp add: jeq_def)
  show ?thesis
    using h1 h2
      minMaxScale_range_and_degenerate
        [of "17.9" "29.65" "70.3" "Num 2020" "Num 2020" NaN]
    by blast
qed


subsection \<open>C4: the encoding of 2025-07-19\<close>

text \<open>
  C4 on a host five hours west of UTC.  \<open>new Date("2025-07-19")\<close> is midnight UTC, but
  \<open>new Date(2025, 0, 1)\<close> is midnight local time, that is 05:00 UTC: between the two lie
  199 days less five hours, and \<open>Math.floor\<close> of it plus one is 199.  Training and
  inference both encode day 199, not day 200, and the cosine of the day differs from
  the one of day 200.
\<close>

theorem encoding_2025_07_19_west_of_utc:
  "dayOfYear utc_minus_5 (newDate utc_minus_5 (Some ''2025-07-19''))
      (getUTCFullYear (newDate utc_minus_5 (Some ''2025-07-19''))) = Num 199
   \<and> parseDateToFeatures utc_minus_5 initial_globals (Some ''2025-07-19'')
       = [Num (7 / 8), Num (sin (2 * pi * 7 / 12)), Num (cos (2 * pi * 7 / 12)),
          Num (sin (2 * pi * 199 / 366)), Num (cos (2 * pi * 199 / 366))]
   \<and> predict_parseDateToFeatures utc_minus_5 (Some ''2025-07-19'')
       = [Num (7 / 8), Num (sin (2 * pi * 7 / 12)), Num (cos (2 * pi * 7 / 12)),
          Num (sin (2 * pi * 199 / 366)), Num (cos (2 * pi * 199 / 366))]
   \<and> parseDateToFeatures utc_minus_5 initial_globals (Some ''2025-07-19'') ! 4
       \<noteq> Num (cos (2 * pi * 200 / 366))"
proof -
  note d = date_2025_07_19(1) [of "- 18000000", folded utc_minus_5_def] date_2025_07_19(2,3)
  have day: "dayOfYear utc_minus_5 (newDate utc_minus_5 (Some ''2025-07-19''))
      (getUTCFullYear (newDate utc_minus_5 (Some ''2025-07-19''))) = Num 199"
    by (simp add: d dayOfYear_2025_07_19_utc_minus_5)
  have enc: "parseDateToFeatures utc_minus_5 initial_globals (Some ''2025-07-19'')
       = [Num (7 / 8), Num (sin (2 * pi * 7 / 12)), Num (cos (2 * pi * 7 / 12)),
          Num (sin (2 * pi * 199 / 366)), Num (cos (2 * pi * 199 / 366))]"
    by (simp add: parseDateToFeatures_def initial_globals_def d
          dayOfYear_2025_07_19_utc_minus_5 encode_finite jsub_def)
  have "parseDateToFeatures utc_minus_5 initial_globals (Some ''2025-07-19'') ! 4
       = Num (cos (2 * pi * 199 / 366))"
    by (simp only: enc) simp
  with cos_199_200 have ne: "parseDateToFeatures utc_minus_5 initial_globals (Some ''2025-07-19'') ! 4
       \<noteq> Num (cos (2 * pi * 200 / 366))"
    by simp
  from day enc ne show ?thesis
    by (simp only: predict_parseDateToFeatures_eq) simp
qed


subsection \<open>C5: the local generator\<close>




subsection \<open>C6: the never-occurred generator\<close>

text \<open>
  C6.  Whenever the draws lie in \<open>[0, 1)\<close>, the never-occurred generator returns, and
  every row it returns comes from a cell \<open>(cLat, cLon)\<close> of the list of zero-fire cells:
  no positive row has \<open>(floor((lat - latMin) / 1.0), floor((lon - lonMin) / 1.0))\<close>
  equal to \<open>(cLat, cLon)\<close>, and the row is a point \<open>(lat, lon)\<close> of that very cell with
  both coordinates clamped into the box.
\<close>

theorem never_fire_negatives_from_empty_cells:
  assumes "unit_draws rnd"
  shows "\<exists>negatives c' st' msgs.
      createNeverFireNegatives rnd c st numSamplesWanted = Inr (negatives, c', st', msgs)
    \<and> (\<forall>row \<in> set negatives. \<exists>cLat cLon lat lon.
          (cLat, cLon) \<in> set (zeroFireCells (posData st) (bounding st))
        \<and> cellCount (posData st) (bounding st) cLat cLon = 0
        \<and> latToCell (bounding st) lat = cLat \<and> lonToCell (bounding st) lon = cLon
        \<and> LATITUDE row = clamp lat (latMin (bounding st)) (latMax (bounding st))
        \<and> LONGITUDE row = clamp lon (lonMin (bounding st)) (lonMax (bounding st)))"
proof -
  let ?cells = "zeroFireCells (posData st) (bounding st)"
  from createNeverFireNegatives_total [OF assms, of c st numSamplesWanted]
  obtain negatives c' st' msgs
    where run: "createNeverFireNegatives rnd c st numSamplesWanted = Inr (negatives, c', st', msgs)"
    by blast
  have "\<exists>cLat cLon lat lon.
          (cLat, cLon) \<in> set ?cells
        \<and> cellCount (posData st) (bounding st) cLat cLon = 0
        \<and> latToCell (bounding st) lat = cLat \<and> lonToCell (bounding st) lon = cLon
        \<and> LATITUDE row = clamp lat (latMin (bounding st)) (latMax (bounding st))
        \<and> LONGITUDE row = clamp lon (lonMin (bounding st)) (lonMax (bounding st))"
    if "row \<in> set negatives" for row
  proof -
    from createNeverFireNegatives_grown(2) [OF run] that
    obtain k s where s: "posData s = posData st" "bounding s = bounding st"
      and cand: "never_candidate rnd k ?cells s = Inr (row, rowKey row)"
      by blast
    from never_candidate_row [OF cand assms] s
    obtain cLat cLon lat lon where cell: "(cLat, cLon) \<in> set ?cells"
      and pt: "latToCell (bounding st) lat = cLat" "lonToCell (bounding st) lon = cLon"
        "LATITUDE row = clamp lat (latMin (bounding st)) (latMax (bounding st))"
        "LONGITUDE row = clamp lon (lonMin (bounding st)) (lonMax (bounding st))"
      by auto
    from zeroFireCells_empty_cell [OF cell] cell pt show ?thesis by blast
  qed
  with run show ?thesis by blast
qed

text \<open>
  On the two fires the grid has one cell without fire, \<open>(0, 0)\<close>, and the generator
  returns a point of it.
\<close>

theorem never_fire_negatives_from_empty_cells_witness:
  "unit_draws quarter_draws
   \<and> createNeverFireNegatives quarter_draws 0 two_fires_store 2
       = Inr ([far_row], 100,
              two_fires_store\<lparr>fireSet := insert ''30.2500,-80.7500,2020,92''
                                                 (buildFireSet two_fires)\<rparr>,
              [''Found 1 lat/lon cells that never had a fire. Sampling from them...''])
   \<and> (\<exists>cLat cLon lat lon.
          (cLat, cLon) \<in> set (zeroFireCells (posData two_fires_store) (bounding two_fires_store))
        \<and> cellCount (posData two_fires_store) (bounding two_fires_store) cLat cLon = 0
        \<and> latToCell (bounding two_fires_store) lat = cLat
        \<and> lonToCell (bounding two_fires_store) lon = cLon
        \<and> LATITUDE far_row = clamp lat (latMin (bounding two_fires_store))
                                   (latMax (bounding two_fires_store))
        \<and> LONGITUDE far_row = clamp lon (lonMin (bounding two_fires_store))
                                    (lonMax (bounding two_fires_store)))"
proof -
  from never_fire_negatives_from_empty_cells [OF unit_draws_quarter, of 0 two_fires_store 2]
  have "\<forall>row \<in> set [far_row]. \<exists>cLat cLon lat lon.
          (cLat, cLon) \<in> set (zeroFireCells (posData two_fires_store) (bounding two_fires_store))
        \<and> cellCount (posData two_fires_store) (bounding two_fires_store) cLat cLon = 0
        \<and> latToCell (bounding two_fires_store) lat = cLat
        \<and> lonToCell (bounding two_fires_store) lon = cLon
        \<and> LATITUDE row = clamp lat (latMin (bounding two_fires_store))
                              (latMax (bounding two_fires_store))
        \<and> LONGITUDE row = clamp lon (lonMin (bounding two_fires_store))
                               (lonMax (bounding two_fires_store))"
    unfolding two_fires_never_run by blast
  with unit_draws_quarter two_fires_never_run show ?thesis by simp
qed


subsection \<open>C7: no zero-occupancy cell\<close>




subsection \<open>C8: the quota split\<close>

text \<open>
  C8.  A run on \<open>N > 0\<close> positive rows (with draws in \<open>[0, 1)\<close>) asks the local
  generator for \<open>floor(N * 0.4)\<close> rows, the global generator for \<open>floor(N * 0.3)\<close> and
  the never-occurred generator for the remainder \<open>N - local - global\<close>; the three
  counts are not negative and add up to \<open>N\<close>; for \<open>N = 2\<close> they are 0, 0 and 2.
\<close>

theorem negative_quota_split:
  assumes "unit_draws rnd" and "positiveData \<noteq> []"
  shows "\<exists>r. runTraining rnd positiveData = Inr r
      \<and> (localNegCount r, globalNegCount r, neverFireNegCount r)
           = negativeCounts (int (length positiveData))
      \<and> localNegCount r = \<lfloor>real (length positiveData) * 0.4\<rfloor>
      \<and> globalNegCount r = \<lfloor>real (length positiveData) * 0.3\<rfloor>
      \<and> neverFireNegCount r = int (length positiveData) - localNegCount r - globalNegCount r
      \<and> localNegCount r + globalNegCount r + neverFireNegCount r = int (length positiveData)
      \<and> 0 \<le> localNegCount r \<and> 0 \<le> globalNegCount r \<and> 0 \<le> neverFireNegCount r
      \<and> (length positiveData = 2 \<longrightarrow>
            localNegCount r = 0 \<and> globalNegCount r = 0 \<and> neverFireNegCount r = 2)"
proof -
  let ?N = "int (length positiveData)"
  from runTraining_steps [OF assms]
  obtain r where run: "runTraining rnd positiveData = Inr r"
    and cnt: "localNegCount r = fst (negativeCounts ?N)"
      "globalNegCount r = fst (snd (negativeCounts ?N))"
      "neverFireNegCount r = snd (snd (negativeCounts ?N))"
    by blast
  have parts: "localNegCount r = \<lfloor>real (length positiveData) * 0.4\<rfloor>"
    "globalNegCount r = \<lfloor>real (length positiveData) * 0.3\<rfloor>"
    "neverFireNegCount r = ?N - localNegCount r - globalNegCount r"
    using cnt by (simp_all add: negativeCounts_parts)
  have nonneg: "0 \<le> localNegCount r" "0 \<le> globalNegCount r" "0 \<le> neverFireNegCount r"
    using cnt negativeCounts_nonneg [of ?N] by simp_all
  have two: "localNegCount r = 0 \<and> globalNegCount r = 0 \<and> neverFireNegCount r = 2"
    if "length positiveData = 2"
    using parts that by simp
  have "(localNegCount r, globalNegCount r, neverFireNegCount r) = negativeCounts ?N"
    using cnt by simp
  with run parts nonneg two show ?thesis by (intro exI [of _ r]) simp
qed

theorem negative_quota_split_witness:
  "unit_draws quarter_draws \<and> two_fires \<noteq> []
   \<and> (\<exists>r. runTraining quarter_draws two_fires = Inr r
        \<and> localNegCount r = 0 \<and> globalNegCount r = 0 \<and> neverFireNegCount r = 2
        \<and> localNegCount r + globalNegCount r + neverFireNegCount r = int (length two_fires))"
proof -
  have ne: "two_fires \<noteq> []" and two: "length two_fires = 2"
    by (simp_all add: two_fires_def)
  from negative_quota_split [OF unit_draws_quarter ne] two unit_draws_quarter ne
  show ?thesis by blast
qed


subsection \<open>C9: malformed target columns\<close>

text \<open>
  C9.  The training run turns every loaded row into one row of features and one row of
  sixteen targets, in order: no row is dropped along the way and nothing can fail.  The
  \<open>j\<close>-th target of a row is 0 when \<open>parseFloat\<close> of its \<open>j\<close>-th target column (missing
  columns included) is \<open>NaN\<close>, and the parsed number otherwise.  \<open>loadDataset\<close> itself
  drops a row only for an empty or missing \<open>Date\<close>, \<open>Latitude_Geocoded\<close> or
  \<open>Longitude_Geocoded\<close>, whatever its target columns hold.
\<close>

theorem malformed_targets_become_zero:
  "length (allTargets (pollution_runTraining rt rows)) = length rows
   \<and> length (allFeatures (pollution_runTraining rt rows)) = length rows
   \<and> (\<forall>i < length rows.
         length (allTargets (pollution_runTraining rt rows) ! i) = 16
       \<and> (\<forall>j < 16.
            allTargets (pollution_runTraining rt rows) ! i ! j
              = safeParse rt ((rows ! i) (targetColumns ! j))
          \<and> (isNaN (parseFloat_of rt ((rows ! i) (targetColumns ! j))) \<longrightarrow>
               allTargets (pollution_runTraining rt rows) ! i ! j = Num 0)
          \<and> (\<not> isNaN (parseFloat_of rt ((rows ! i) (targetColumns ! j))) \<longrightarrow>
               allTargets (pollution_runTraining rt rows) ! i ! j
                 = parseFloat_of rt ((rows ! i) (targetColumns ! j)))))
   \<and> (\<forall>row \<in> set parsed.
         \<not> falsy (row ''Date'') \<and> \<not> falsy (row ''Latitude_Geocoded'')
         \<and> \<not> falsy (row ''Longitude_Geocoded'') \<longrightarrow> row \<in> set (loadDataset parsed))"
proof (intro conjI allI impI ballI)
  show "length (allTargets (pollution_runTraining rt rows)) = length rows"
    "length (allFeatures (pollution_runTraining rt rows)) = length rows"
    by (simp_all add: pollution_runTraining_def Let_def)
next
  fix i assume "i < length rows"
  then show "length (allTargets (pollution_runTraining rt rows) ! i) = 16"
    by (simp add: pollution_runTraining_def rowToFeatureTarget_def Let_def targetColumns_length)
next
  fix i j :: nat assume i: "i < length rows" and j: "j < 16"
  then show t: "allTargets (pollution_runTraining rt rows) ! i ! j
              = safeParse rt ((rows ! i) (targetColumns ! j))"
    by (simp add: pollution_runTraining_def rowToFeatureTarget_def Let_def targetColumns_length)
  {
    assume "isNaN (parseFloat_of rt ((rows ! i) (targetColumns ! j)))"
    then show "allTargets (pollution_runTraining rt rows) ! i ! j = Num 0"
      by (simp add: t safeParse_def)
  }
  {
    assume "\<not> isNaN (parseFloat_of rt ((rows ! i) (targetColumns ! j)))"
    then show "allTargets (pollution_runTraining rt rows) ! i ! j
                 = parseFloat_of rt ((rows ! i) (targetColumns ! j))"
      by (simp add: t safeParse_def)
  }
next
  fix row
  assume "row \<in> set parsed"
    and "\<not> falsy (row ''Date'') \<and> \<not> falsy (row ''Latitude_Geocoded'')
         \<and> \<not> falsy (row ''Longitude_Geocoded'')"
  then show "row \<in> set (loadDataset parsed)"
    by (simp add: loadDataset_def)
qed

text \<open>
  A file of one row whose \<open>O3 Mean\<close> reads \<open>n/a\<close>, whose \<open>O3 AQI\<close> reads \<open>37\<close> and which
  lacks the other target columns: the row is loaded, its first target is 0 and its fourth
  is 37.
\<close>

theorem malformed_targets_become_zero_witness:
  "rows_malformed ! 0 \<in> set rows_malformed
   \<and> \<not> falsy ((rows_malformed ! 0) ''Date'')
   \<and> \<not> falsy ((rows_malformed ! 0) ''Latitude_Geocoded'')
   \<and> \<not> falsy ((rows_malformed ! 0) ''Longitude_Geocoded'')
   \<and> rows_malformed ! 0 \<in> set (loadDataset rows_malformed)
   \<and> length (allTargets (pollution_runTraining utc rows_malformed)) = 1
   \<and> isNaN (parseFloat_of utc ((rows_malformed ! 0) (targetColumns ! 0)))
   \<and> allTargets (pollution_runTraining utc rows_malformed) ! 0 ! 0 = Num 0
   \<and> \<not> isNaN (parseFloat_of utc ((rows_malformed ! 0) (targetColumns ! 3)))
   \<and> allTargets (pollution_runTraining utc rows_malformed) ! 0 ! 3 = Num 37"
proof -
  have len: "length rows_malformed = 1" and i: "0 < length rows_malformed"
    and j: "(0::nat) < 16" "(3::nat) < 16"
    by (simp_all add: rows_malformed_def)
  have row: "rows_malformed ! 0 \<in> set rows_malformed"
    and keep: "\<not> falsy ((rows_malformed ! 0) ''Date'')"
      "\<not> falsy ((rows_malformed ! 0) ''Latitude_Geocoded'')"
      "\<not> falsy ((rows_malformed ! 0) ''Longitude_Geocoded'')"
    by (simp_all add: rows_malformed_def falsy_def)
  have c0: "(rows_malformed ! 0) (targetColumns ! 0) = Some ''n/a''"
    and c3: "(rows_malformed ! 0) (targetColumns ! 3) = Some ''37''"
    by (simp_all add: rows_malformed_def targetColumns_def)
  have p0: "isNaN (parseFloat_of utc (Some ''n/a''))"
    and p3: "parseFloat_of utc (Some ''37'') = Num 37"
    by (simp_all add: parseFloat_of_def utc_def host_def parseFloat_digits_def digit_value_def)
  note t = malformed_targets_become_zero [of utc rows_malformed rows_malformed]
  from t row keep have load: "rows_malformed ! 0 \<in> set (loadDataset rows_malformed)"
    by blast
  from t have n: "length (allTargets (pollution_runTraining utc rows_malformed)) = 1"
    using len by simp
  from t i j(1) have "isNaN (parseFloat_of utc ((rows_malformed ! 0) (targetColumns ! 0))) \<longrightarrow>
      allTargets (pollution_runTraining utc rows_malformed) ! 0 ! 0 = Num 0"
    by blast
  then have z: "allTargets (pollution_runTraining utc rows_malformed) ! 0 ! 0 = Num 0"
    using p0 by (simp add: c0)
  from t i j(2) have "\<not> isNaN (parseFloat_of utc ((rows_malformed ! 0) (targetColumns ! 3))) \<longrightarrow>
      allTargets (pollution_runTraining utc rows_malformed) ! 0 ! 3
        = parseFloat_of utc ((rows_malformed ! 0) (targetColumns ! 3))"
    by blast
  then have v: "allTargets (pollution_runTraining utc rows_malformed) ! 0 ! 3 = Num 37"
    by (simp add: c3 p3)
  from row keep load n z v p0 show ?thesis
    by (simp add: c0 c3 p3)
qed


subsection \<open>C10: what the generators write\<close>

text \<open>
  C10.  Whenever one of the three generators returns, the store it returns has the same
  array of positive rows and the same bounding object as the store it received, and its
  key set is the received one together with the keys of the rows the generator returns.
\<close>

theorem generators_write_only_the_key_set:
  "(createLocalNegativeSamples rnd c n st = Inr (negsL, cL, stL) \<longrightarrow>
       posData stL = posData st \<and> bounding stL = bounding st
     \<and> fireSet stL = fireSet st \<union> rowKey ` set negsL)
   \<and> (createGlobalNegativeSamples rnd c n st = (negsG, cG, stG) \<longrightarrow>
       posData stG = posData st \<and> bounding stG = bounding st
     \<and> fireSet stG = fireSet st \<union> rowKey ` set negsG)
   \<and> (createNeverFireNegatives rnd c st n = Inr (negsN, cN, stN, msgs) \<longrightarrow>
       posData stN = posData st \<and> bounding stN = bounding st
     \<and> fireSet stN = fireSet st \<union> rowKey ` set negsN)"
proof (intro conjI impI)
  assume "createLocalNegativeSamples rnd c n st = Inr (negsL, cL, stL)"
  then have "grown st negsL stL" by (rule createLocalNegativeSamples_grown)
  then show "posData stL = posData st" "bounding stL = bounding st"
    "fireSet stL = fireSet st \<union> rowKey ` set negsL"
    by (simp_all add: grown_def)
next
  assume "createGlobalNegativeSamples rnd c n st = (negsG, cG, stG)"
  then have "grown st negsG stG" by (rule createGlobalNegativeSamples_grown)
  then show "posData stG = posData st" "bounding stG = bounding st"
    "fireSet stG = fireSet st \<union> rowKey ` set negsG"
    by (simp_all add: grown_def)
next
  assume "createNeverFireNegatives rnd c st n = Inr (negsN, cN, stN, msgs)"
  then have "grown st negsN stN" by (rule createNeverFireNegatives_grown)
  then show "posData stN = posData st" "bounding stN = bounding st"
    "fireSet stN = fireSet st \<union> rowKey ` set negsN"
    by (simp_all add: grown_def)
qed

text \<open>
  The three generators on the store of the two fires: each returns one row, and the
  theorem gives the store each leaves behind.
\<close>

theorem generators_write_only_the_key_set_witness:
  "createLocalNegativeSamples quarter_draws 0 1 two_fires_store
      = Inr ([near_row], 4,
             two_fires_store\<lparr>fireSet := insert ''30.0000,-80.2500,2020,92''
                                                (buildFireSet two_fires)\<rparr>)
   \<and> createGlobalNegativeSamples quarter_draws 0 2 two_fires_store
      = ([far_row], 80,
         two_fires_store\<lparr>fireSet := insert ''30.2500,-80.7500,2020,92''
                                            (buildFireSet two_fires)\<rparr>)
   \<and> createNeverFireNegatives quarter_draws 0 two_fires_store 2
      = Inr ([far_row], 100,
             two_fires_store\<lparr>fireSet := insert ''30.2500,-80.7500,2020,92''
                                                (buildFireSet two_fires)\<rparr>,
             [''Found 1 lat/lon cells that never had a fire. Sampling from them...''])
   \<and> posData (two_fires_store\<lparr>fireSet := insert ''30.0000,-80.2500,2020,92''
                                                (buildFireSet two_fires)\<rparr>)
       = posData two_fires_store
   \<and> bounding (two_fires_store\<lparr>fireSet := insert ''30.0000,-80.2500,2020,92''
                                                 (buildFireSet two_fires)\<rparr>)
       = bounding two_fires_store
   \<and> insert ''30.0000,-80.2500,2020,92'' (buildFireSet two_fires)
       = fireSet two_fires_store \<union> rowKey ` set [near_row]
   \<and> insert ''30.2500,-80.7500,2020,92'' (buildFireSet two_fires)
       = fireSet two_fires_store \<union> rowKey ` set [far_row]"
proof -
  let ?near = "two_fires_store\<lparr>fireSet := insert ''30.0000,-80.2500,2020,92''
                                                  (buildFireSet two_fires)\<rparr>"
  let ?far = "two_fires_store\<lparr>fireSet := insert ''30.2500,-80.7500,2020,92''
                                                 (buildFireSet two_fires)\<rparr>"
  from generators_write_only_the_key_set
    [of quarter_draws 0 1 two_fires_store "[near_row]" 4 ?near]
    two_fires_local_run
  have l: "posData ?near = posData two_fires_store"
    "bounding ?near = bounding two_fires_store"
    "fireSet ?near = fireSet two_fires_store \<union> rowKey ` set [near_row]"
    by blast+
  from generators_write_only_the_key_set
    [of quarter_draws 0 2 two_fires_store _ _ _ "[far_row]" 80 ?far "[far_row]" 100 ?far
       "[''Found 1 lat/lon cells that never had a fire. Sampling from them...'']"]
    two_fires_global_run two_fires_never_run
  have g: "fireSet ?far = fireSet two_fires_store \<union> rowKey ` set [far_row]"
    by blast
  from l g two_fires_local_run two_fires_global_run two_fires_never_run
  show ?thesis by simp
qed

end
